theory Spec2Isabelle
  imports Main
begin

section \<open>JavaScript values and the collaborators of the analyzer\<close>

text \<open>
  A thrown JavaScript \<open>Error\<close> is a value; a call that can throw returns
  \<open>error + 'a\<close>, with \<open>Inl\<close> for the throw.
\<close>

datatype error = Error string

text \<open>Truthiness of a JavaScript string: only the empty string is falsy.\<close>

definition truthy :: "string \<Rightarrow> bool" where
  "truthy s = (s \<noteq> [])"

text \<open>\<open>s.slice(a, b)\<close>, \<open>s.slice(a)\<close> and \<open>s.slice(-n)\<close> for non-negative \<open>a\<close>, \<open>b\<close>, \<open>n\<close>.\<close>

definition slice :: "nat \<Rightarrow> nat \<Rightarrow> string \<Rightarrow> string" where
  "slice a b s = drop a (take b s)"

definition slice_from :: "nat \<Rightarrow> string \<Rightarrow> string" where
  "slice_from a s = drop a s"

definition slice_last :: "nat \<Rightarrow> string \<Rightarrow> string" where
  "slice_last n s = drop (length s - n) s"

text \<open>
  A transaction record of the block explorer. Every field is a string; \<open>input\<close> may be
  missing (\<open>undefined\<close>), which is \<open>None\<close>.
\<close>

record tx =
  tx_hash :: string
  tx_from :: string
  tx_to :: string
  tx_value :: string
  tx_input :: "string option"
  tx_timeStamp :: string

record api_response =
  status :: string
  result :: "tx list"

text \<open>
  The libraries and services the analyzer calls are parameters of the model:
  \<^item> \<open>isAddress\<close>, \<open>toChecksumAddress\<close>: \<open>web3.utils\<close>;
  \<^item> \<open>decodeParameters\<close>: \<open>web3.eth.abi.decodeParameters\<close>, which throws on malformed data;
  \<^item> \<open>getCode\<close>, \<open>getStorageAt\<close>: \<open>web3.eth\<close>, RPC reads that may throw;
  \<^item> \<open>getBlockNumber k\<close>: the answer to the \<open>k\<close>-th \<open>web3.eth.getBlockNumber\<close> request of
    a run (the chain head moves between requests);
  \<^item> \<open>txlist\<close>: the explorer's \<open>txlist\<close> request (\<open>fetch\<close> and \<open>response.json()\<close>);
  \<^item> \<open>toISOString\<close>: \<open>new Date(parseInt(s) * 1000).toISOString()\<close>, a \<open>RangeError\<close> when
    the date is invalid;
  \<^item> \<open>now\<close>: \<open>new Date().toISOString()\<close>;
  \<^item> \<open>fsWrite\<close>: whether \<open>fs.mkdir\<close> and \<open>fs.writeFile\<close> succeed for a file prefix.
\<close>

record env =
  isAddress :: "string \<Rightarrow> bool"
  toChecksumAddress :: "string \<Rightarrow> error + string"
  decodeParameters :: "(string \<times> string) list \<Rightarrow> string \<Rightarrow> error + (string \<times> string) list"
  getCode :: "string \<Rightarrow> error + string"
  getStorageAt :: "string \<Rightarrow> string \<Rightarrow> nat \<Rightarrow> error + string"
  getBlockNumber :: "nat \<Rightarrow> error + nat"
  txlist :: "string \<Rightarrow> error + api_response"
  toISOString :: "string \<Rightarrow> error + string"
  now :: string
  fsWrite :: "string \<Rightarrow> bool"

section \<open>Constants of the analyzer\<close>

definition UPGRADE_TO :: string where
  "UPGRADE_TO = ''0x3659cfe6''"

definition UPGRADE_TO_AND_CALL :: string where
  "UPGRADE_TO_AND_CALL = ''0x4f1ef286''"

definition CHANGE_ADMIN :: string where
  "CHANGE_ADMIN = ''0x8f283970''"

definition INITIALIZE :: string where
  "INITIALIZE = ''0x8129fc1c''"

text \<open>\<open>FUNCTION_SIGNATURES\<close>, in the order of \<open>Object.entries\<close>.\<close>

definition FUNCTION_SIGNATURES :: "(string \<times> string) list" where
  "FUNCTION_SIGNATURES =
     [(''UPGRADE_TO'', UPGRADE_TO),
      (''UPGRADE_TO_AND_CALL'', UPGRADE_TO_AND_CALL),
      (''CHANGE_ADMIN'', CHANGE_ADMIN),
      (''INITIALIZE'', INITIALIZE)]"

definition STORAGE_SLOT_IMPLEMENTATION :: string where
  "STORAGE_SLOT_IMPLEMENTATION =
     ''0x360894a13ba1a3210667c828492db98dca3e2076cc3735a920a3ca505d382bbc''"

definition STORAGE_SLOT_ADMIN :: string where
  "STORAGE_SLOT_ADMIN =
     ''0xb53127684a568b3173ae13b9f8a6016e243e63b6e8ee1178d6a717850b5d6103''"

text \<open>The 20-byte zero address, as the source writes it.\<close>

definition ZERO_ADDRESS :: string where
  "ZERO_ADDRESS = ''0x0000000000000000000000000000000000000000''"

section \<open>Address validator\<close>

definition isValidAddress :: "env \<Rightarrow> string \<Rightarrow> bool" where
  "isValidAddress e address = (isAddress e address \<and> address \<noteq> ZERO_ADDRESS)"

section \<open>Transaction classifier\<close>

text \<open>The decoded input \<open>{method, params}\<close>; \<open>params\<close> is an object, here its property list.\<close>

record decoded =
  method_name :: string
  params :: "(string \<times> string) list"

text \<open>\<open>getAbiByFunctionName\<close>: the parameter schema (name, type) of a function, \<open>None\<close> for \<open>null\<close>.\<close>

definition abiMapping :: "(string \<times> (string \<times> string) list) list" where
  "abiMapping =
     [(''UPGRADE_TO'', [(''implementation'', ''address'')]),
      (''UPGRADE_TO_AND_CALL'', [(''implementation'', ''address''), (''data'', ''bytes'')]),
      (''CHANGE_ADMIN'', [(''newAdmin'', ''address'')]),
      (''INITIALIZE'', [])]"

definition getAbiByFunctionName :: "string \<Rightarrow> (string \<times> string) list option" where
  "getAbiByFunctionName functionName = map_of abiMapping functionName"

definition isSuspiciousSignature :: "string \<Rightarrow> bool" where
  "isSuspiciousSignature signature =
     (signature \<in> set [UPGRADE_TO, UPGRADE_TO_AND_CALL, CHANGE_ADMIN])"

definition unknown_input :: decoded where
  "unknown_input = \<lparr>method_name = ''unknown'', params = []\<rparr>"

definition decodeTransactionInput :: "env \<Rightarrow> string option \<Rightarrow> decoded" where
  "decodeTransactionInput e inputData =
     (case inputData of
        None \<Rightarrow> unknown_input
      | Some inp \<Rightarrow>
          if \<not> truthy inp \<or> length inp < 10 then unknown_input
          else
            (case find (\<lambda>(_, sig). sig = slice 0 10 inp) FUNCTION_SIGNATURES of
               None \<Rightarrow> unknown_input
             | Some (functionName, _) \<Rightarrow>
                 (case getAbiByFunctionName functionName of
                    None \<Rightarrow> \<lparr>method_name = functionName, params = []\<rparr>
                  | Some paramsAbi \<Rightarrow>
                      if paramsAbi = [] then \<lparr>method_name = functionName, params = []\<rparr>
                      else
                        (case decodeParameters e paramsAbi (slice_from 10 inp) of
                           Inr decodedParams \<Rightarrow>
                             \<lparr>method_name = functionName, params = decodedParams\<rparr>
                         | Inl _ \<Rightarrow> \<lparr>method_name = functionName, params = []\<rparr>))))"

text \<open>
  The per-transaction analysis object. \<open>decodedInput\<close> is a property that the code adds
  only in one branch: \<open>None\<close> is the property being absent.
\<close>

record analysis =
  a_hash :: string
  a_from :: string
  a_to :: string
  a_value :: string
  a_input :: "string option"
  timestamp :: string
  suspicious :: bool
  reason :: "string list"
  decodedInput :: "decoded option"

text \<open>The branch of \<open>analyzeSingleTransaction\<close> after the analysis object is built.\<close>

definition classify_input :: "env \<Rightarrow> tx \<Rightarrow> analysis \<Rightarrow> analysis" where
  "classify_input e t a =
     (case tx_input t of
        None \<Rightarrow> a
      | Some inp \<Rightarrow>
          if truthy inp \<and> 10 \<le> length inp then
            (let signature = slice 0 10 inp;
                 a1 = a\<lparr>decodedInput := Some (decodeTransactionInput e (tx_input t))\<rparr>
             in if isSuspiciousSignature signature
                then a1\<lparr>suspicious := True, reason := reason a1 @ [''suspicious_signature'']\<rparr>
                else a1)
          else a)"

text \<open>\<open>analyzeSingleTransaction\<close> of \<open>smart-contract-analyzer.js\<close>.\<close>

definition analyzeSingleTransaction :: "env \<Rightarrow> tx \<Rightarrow> error + analysis" where
  "analyzeSingleTransaction e t =
     (case toISOString e (tx_timeStamp t) of
        Inl err \<Rightarrow> Inl err
      | Inr ts \<Rightarrow>
          Inr (classify_input e t
            \<lparr>a_hash = tx_hash t,
             a_from = (if isValidAddress e (tx_from t) then tx_from t else ''Adresse invalide''),
             a_to = (if isValidAddress e (tx_to t) then tx_to t else ''Adresse invalide''),
             a_value = tx_value t,
             a_input = tx_input t,
             timestamp = ts,
             suspicious = False,
             reason = [],
             decodedInput = None\<rparr>))"

text \<open>
  \<open>analyzeSingleTransaction\<close> of the analyzer that checkpoints its report; it copies
  \<open>from\<close> and \<open>to\<close> as they are.
\<close>

definition analyzeSingleTransaction_ckpt :: "env \<Rightarrow> tx \<Rightarrow> error + analysis" where
  "analyzeSingleTransaction_ckpt e t =
     (case toISOString e (tx_timeStamp t) of
        Inl err \<Rightarrow> Inl err
      | Inr ts \<Rightarrow>
          Inr (classify_input e t
            \<lparr>a_hash = tx_hash t,
             a_from = tx_from t,
             a_to = tx_to t,
             a_value = tx_value t,
             a_input = tx_input t,
             timestamp = ts,
             suspicious = False,
             reason = [],
             decodedInput = None\<rparr>))"

section \<open>State inspector\<close>

record contract_state =
  implementation :: string
  admin :: string

definition normalizeAddress :: "env \<Rightarrow> string \<Rightarrow> error + string" where
  "normalizeAddress e hexData = toChecksumAddress e (''0x'' @ slice_last 40 hexData)"

text \<open>
  \<open>getContractState\<close>: both slots are read first, then both words are normalized; any
  throw leaves the function.
\<close>

definition getContractState :: "env \<Rightarrow> string \<Rightarrow> nat \<Rightarrow> error + contract_state" where
  "getContractState e address blockNumber =
     (case getStorageAt e address STORAGE_SLOT_IMPLEMENTATION blockNumber of
        Inl err \<Rightarrow> Inl err
      | Inr impl_word \<Rightarrow>
          (case getStorageAt e address STORAGE_SLOT_ADMIN blockNumber of
             Inl err \<Rightarrow> Inl err
           | Inr admin_word \<Rightarrow>
               (case normalizeAddress e impl_word of
                  Inl err \<Rightarrow> Inl err
                | Inr i \<Rightarrow>
                    (case normalizeAddress e admin_word of
                       Inl err \<Rightarrow> Inl err
                     | Inr a \<Rightarrow> Inr \<lparr>implementation = i, admin = a\<rparr>))))"

section \<open>Implementation history sampler\<close>

text \<open>
  \<open>getImplementationAt\<close>: \<open>None\<close> is \<open>null\<close>. The whole body is inside \<open>try\<close>, so a
  throw of the storage read or of the normalization is \<open>null\<close> as well.
\<close>

definition getImplementationAt :: "env \<Rightarrow> string \<Rightarrow> nat \<Rightarrow> string option" where
  "getImplementationAt e contractAddress blockNumber =
     (case getStorageAt e contractAddress STORAGE_SLOT_IMPLEMENTATION blockNumber of
        Inl _ \<Rightarrow> None
      | Inr storageValue \<Rightarrow>
          if truthy storageValue \<and> storageValue \<noteq> ZERO_ADDRESS then
            (case normalizeAddress e storageValue of
               Inl _ \<Rightarrow> None
             | Inr a \<Rightarrow> Some a)
          else None)"

record sighting =
  s_blockNumber :: nat
  s_implementation :: string

text \<open>
  The requests a run sends to the node and to the explorer, in order: the record of
  what the run did outside the analyzer.
\<close>

datatype request =
  BlockNumberRequest
  | StorageRequest string nat
  | TxListRequest string

text \<open>
  The \<open>while\<close> loop of \<open>analyzeImplementationHistory\<close>, on the pair of the
  \<open>implementations\<close> array and the requests sent.
\<close>

function history_loop ::
  "env \<Rightarrow> string \<Rightarrow> nat \<Rightarrow> nat \<Rightarrow> sighting list \<times> request list
     \<Rightarrow> sighting list \<times> request list" where
  "history_loop e victim currentBlock latestBlock (implementations, reqs) =
     (if currentBlock < latestBlock then
        history_loop e victim (currentBlock + 1000) latestBlock
          ((case getImplementationAt e victim currentBlock of
              None \<Rightarrow> implementations
            | Some impl \<Rightarrow>
                if truthy impl
                then implementations @ [\<lparr>s_blockNumber = currentBlock, s_implementation = impl\<rparr>]
                else implementations),
           reqs @ [StorageRequest victim currentBlock])
      else (implementations, reqs))"
  by pat_completeness auto
termination
  by (relation "measure (\<lambda>(e, victim, currentBlock, latestBlock, acc). latestBlock - currentBlock)")
    auto

declare history_loop.simps [simp del]

section \<open>JavaScript values of the report\<close>

text \<open>
  A JavaScript value as far as serialization tells values apart. An object is its list
  of own properties in insertion order; a \<open>Set\<close> is its elements in insertion order.
\<close>

datatype jsval =
  JUndefined
  | JNull
  | JBool bool
  | JNum int
  | JBigInt int
  | JStr string
  | JArr "jsval list"
  | JObj "(string \<times> jsval) list"
  | JSet "jsval list"

text \<open>
  \<open>this.report\<close>. The three properties that the phases add later are \<open>None\<close> until
  they are assigned. \<open>relatedContracts\<close> is a \<open>Set\<close>: a list without duplicates, in
  insertion order.
\<close>

record report =
  hackTransaction :: string
  victimContract :: string
  suspectAddress :: string
  startTime :: string
  implementations :: "jsval list"
  contractCalls :: "jsval list"
  proxyOperations :: "jsval list"
  suspiciousActions :: "analysis list"
  relatedContracts :: "string list"
  stateChanges :: "jsval list"
  hackDetails :: "jsval option"
  victimAnalysis :: "jsval option"
  implementationHistory :: "sighting list option"

text \<open>
  The analyzer object: \<open>processedContracts\<close> (a \<open>Set\<close> used through \<open>has\<close> and \<open>add\<close>
  only), \<open>report\<close>, and the requests sent so far.
\<close>

record analyzer =
  processedContracts :: "string set"
  report :: report
  requests :: "request list"

text \<open>
  How a call of a method ends: it returns, it throws, or the model stops following it.
  The analyzer is given beside the outcome, as the call leaves it.
\<close>

datatype outcome = Returned | Threw error | OutOfFuel

definition analyzeImplementationHistory :: "env \<Rightarrow> analyzer \<Rightarrow> analyzer \<times> outcome" where
  "analyzeImplementationHistory e st =
     (let st1 = st\<lparr>requests := requests st @ [BlockNumberRequest]\<rparr> in
      case getBlockNumber e (count_list (requests st) BlockNumberRequest) of
        Inl err \<Rightarrow> (st1, Threw err)
      | Inr latestBlock \<Rightarrow>
          (case history_loop e (victimContract (report st1)) 0 latestBlock ([], requests st1) of
             (impls, reqs) \<Rightarrow>
               (st1\<lparr>report := (report st1)\<lparr>implementationHistory := Some impls\<rparr>,
                    requests := reqs\<rparr>, Returned)))"

section \<open>Interaction graph crawler\<close>

definition isContract :: "env \<Rightarrow> string \<Rightarrow> error + bool" where
  "isContract e address =
     (if \<not> isValidAddress e address then Inr False
      else
        (case getCode e address of
           Inl err \<Rightarrow> Inl err
         | Inr code \<Rightarrow> Inr (code \<noteq> ''0x'')))"

text \<open>\<open>getContractTransactions\<close>, with the request it sends to the explorer.\<close>

definition getContractTransactions :: "env \<Rightarrow> string \<Rightarrow> request list \<times> (error + tx list)" where
  "getContractTransactions e address =
     (if \<not> isValidAddress e address then ([], Inr [])
      else
        ([TxListRequest address],
         (case txlist e address of
            Inl err \<Rightarrow> Inl err
          | Inr data \<Rightarrow>
              if status data \<noteq> ''1'' then Inr []
              else Inr (filter (\<lambda>t. isValidAddress e (tx_from t) \<and> isValidAddress e (tx_to t))
                         (result data)))))"

text \<open>
  \<open>contractsToAnalyze\<close> is a \<open>Set\<close> that the loop iterates while it grows: the list of
  its elements in insertion order and the position of the iterator. \<open>add\<close> of an element
  that is already there changes nothing.
\<close>

definition set_add :: "string \<Rightarrow> string list \<Rightarrow> string list" where
  "set_add x xs = (if x \<in> set xs then xs else xs @ [x])"

text \<open>The inner loop, over the transactions of one contract.\<close>

fun tx_loop ::
  "env \<Rightarrow> tx list \<Rightarrow> string list \<Rightarrow> analyzer \<Rightarrow> (string list \<times> analyzer) \<times> error option" where
  "tx_loop e [] cta st = ((cta, st), None)"
| "tx_loop e (t # ts) cta st =
     (case (if truthy (tx_to t) \<and> isValidAddress e (tx_to t)
            then isContract e (tx_to t) else Inr False) of
        Inl err \<Rightarrow> ((cta, st), Some err)
      | Inr is_contract \<Rightarrow>
          (let cta1 = (if is_contract then set_add (tx_to t) cta else cta) in
           case analyzeSingleTransaction e t of
             Inl err \<Rightarrow> ((cta1, st), Some err)
           | Inr a \<Rightarrow>
               tx_loop e ts cta1
                 (if suspicious a
                  then st\<lparr>report := (report st)
                         \<lparr>suspiciousActions := suspiciousActions (report st) @ [a]\<rparr>\<rparr>
                  else st)))"

text \<open>
  The crawl has no bound of its own, so the outer loop takes fuel, one unit for each
  element of \<open>contractsToAnalyze\<close> it visits.
\<close>

fun crawl_loop :: "env \<Rightarrow> nat \<Rightarrow> nat \<Rightarrow> string list \<Rightarrow> analyzer \<Rightarrow> analyzer \<times> outcome" where
  "crawl_loop e 0 i cta st =
     (if length cta \<le> i then (st, Returned) else (st, OutOfFuel))"
| "crawl_loop e (Suc fuel) i cta st =
     (if length cta \<le> i then (st, Returned)
      else
        (let contract = cta ! i in
         if \<not> isValidAddress e contract then crawl_loop e fuel (Suc i) cta st
         else if contract \<in> processedContracts st then crawl_loop e fuel (Suc i) cta st
         else
           (case getContractTransactions e contract of
              (reqs, fetched) \<Rightarrow>
                (let st1 = st\<lparr>processedContracts := insert contract (processedContracts st),
                              requests := requests st @ reqs\<rparr> in
                 case fetched of
                   Inl err \<Rightarrow> (st1, Threw err)
                 | Inr transactions \<Rightarrow>
                     (case tx_loop e transactions cta st1 of
                        ((cta1, st2), Some err) \<Rightarrow> (st2, Threw err)
                      | ((cta1, st2), None) \<Rightarrow> crawl_loop e fuel (Suc i) cta1 st2)))))"

definition traceContractCalls :: "env \<Rightarrow> nat \<Rightarrow> string \<Rightarrow> analyzer \<Rightarrow> analyzer \<times> outcome" where
  "traceContractCalls e fuel startAddress st = crawl_loop e fuel 0 [startAddress] st"

text \<open>The addresses whose transaction list a run has requested, in order.\<close>

fun txlist_requests :: "request list \<Rightarrow> string list" where
  "txlist_requests [] = []"
| "txlist_requests (TxListRequest a # rs) = a # txlist_requests rs"
| "txlist_requests (_ # rs) = txlist_requests rs"

text \<open>The block heights whose storage a run has read, in order.\<close>

fun storage_requests :: "request list \<Rightarrow> nat list" where
  "storage_requests [] = []"
| "storage_requests (StorageRequest a h # rs) = h # storage_requests rs"
| "storage_requests (_ # rs) = storage_requests rs"

section \<open>Serialization of the report\<close>

text \<open>
  A JSON text, as the tree it denotes. \<open>JSON.parse\<close> of the text that
  \<open>JSON.stringify\<close> wrote gives this tree back; the model works on the tree.
\<close>

datatype json =
  JsNull
  | JsBool bool
  | JsNum int
  | JsStr string
  | JsArr "json list"
  | JsObj "(string \<times> json) list"

text \<open>Decimal rendering, for \<open>BigInt.prototype.toString\<close>.\<close>

fun decimal :: "nat \<Rightarrow> string" where
  "decimal n = (if n < 10 then [char_of (48 + n)] else decimal (n div 10) @ [char_of (48 + n mod 10)])"

definition bigint_toString :: "int \<Rightarrow> string" where
  "bigint_toString i = (if i < 0 then CHR ''-'' # decimal (nat (- i)) else decimal (nat i))"

text \<open>
  The replacer functions that the repository passes to \<open>JSON.stringify\<close>; none of them
  looks at the key. \<open>NoReplacer\<close> is a call without a replacer.
\<close>

datatype replacer = NoReplacer | BigIntReplacer | SaveToJsonReplacer

fun apply_replacer :: "replacer \<Rightarrow> jsval \<Rightarrow> jsval" where
  "apply_replacer NoReplacer v = v"
| "apply_replacer BigIntReplacer (JBigInt i) = JStr (bigint_toString i)"
| "apply_replacer BigIntReplacer v = v"
| "apply_replacer SaveToJsonReplacer (JBigInt i) = JStr (bigint_toString i)"
| "apply_replacer SaveToJsonReplacer (JSet xs) = JArr xs"
| "apply_replacer SaveToJsonReplacer v = v"

text \<open>
  What serializing a property gives: a throw, \<open>undefined\<close> (\<open>Inr None\<close>) or a JSON value.
  In an array \<open>undefined\<close> is written \<open>null\<close>; in an object the property is left out.
  The first throw, in property order, is the throw of the whole.
\<close>

fun collect_elems :: "(error + json option) list \<Rightarrow> error + json list" where
  "collect_elems [] = Inr []"
| "collect_elems (Inl err # rs) = Inl err"
| "collect_elems (Inr r # rs) =
     (case collect_elems rs of
        Inl err \<Rightarrow> Inl err
      | Inr js \<Rightarrow> Inr ((case r of None \<Rightarrow> JsNull | Some j \<Rightarrow> j) # js))"

fun collect_props :: "(string \<times> (error + json option)) list \<Rightarrow> error + (string \<times> json) list" where
  "collect_props [] = Inr []"
| "collect_props ((k, Inl err) # rs) = Inl err"
| "collect_props ((k, Inr r) # rs) =
     (case collect_props rs of
        Inl err \<Rightarrow> Inl err
      | Inr ps \<Rightarrow> Inr ((case r of None \<Rightarrow> ps | Some j \<Rightarrow> (k, j) # ps)))"

text \<open>
  \<open>JSON.stringify(value, replacer)\<close>: the replacer is applied to a value before the
  value is serialized, at every level. A \<open>BigInt\<close> that reaches the serializer is a
  \<open>TypeError\<close>; a \<open>Set\<close> that reaches it has no own properties and is written \<open>{}\<close>.
\<close>

function stringify :: "replacer \<Rightarrow> jsval \<Rightarrow> error + json option" where
  "stringify r v =
     (case apply_replacer r v of
        JUndefined \<Rightarrow> Inr None
      | JNull \<Rightarrow> Inr (Some JsNull)
      | JBool b \<Rightarrow> Inr (Some (JsBool b))
      | JNum n \<Rightarrow> Inr (Some (JsNum n))
      | JBigInt i \<Rightarrow> Inl (Error ''TypeError: Do not know how to serialize a BigInt'')
      | JStr s \<Rightarrow> Inr (Some (JsStr s))
      | JArr xs \<Rightarrow>
          (case collect_elems (map (stringify r) xs) of
             Inl err \<Rightarrow> Inl err
           | Inr js \<Rightarrow> Inr (Some (JsArr js)))
      | JObj kvs \<Rightarrow>
          (case collect_props (map (\<lambda>(k, x). (k, stringify r x)) kvs) of
             Inl err \<Rightarrow> Inl err
           | Inr ps \<Rightarrow> Inr (Some (JsObj ps)))
      | JSet xs \<Rightarrow> Inr (Some (JsObj [])))"
  by pat_completeness auto
termination
proof (relation "measure (\<lambda>(r, v). size v)")
  show "wf (measure (\<lambda>(r, v). size v))" by simp
next
  fix r :: replacer and v :: jsval and xs x
  assume "apply_replacer r v = JArr xs" and "x \<in> set xs"
  then show "((r, x), (r, v)) \<in> measure (\<lambda>(r, v). size v)"
    by (cases r; cases v) (auto simp: less_Suc_eq_le dest: size_list_estimation')
next
  fix r :: replacer and v :: jsval and kvs kx k x
  assume a: "apply_replacer r v = JObj kvs" and m: "kx \<in> set kvs" and kx: "(k, x) = kx"
  have "size_prod (\<lambda>_. 0) size (k, x) \<le> size_list (size_prod (\<lambda>_. 0) size) kvs"
    using m kx by (auto intro: size_list_estimation')
  then have "size x < size (JObj kvs)" by simp
  with a show "((r, x), (r, v)) \<in> measure (\<lambda>(r, v). size v)"
    by (cases r; cases v) auto
qed

declare stringify.simps [simp del]

text \<open>\<open>JSON.parse\<close>, on the tree.\<close>

fun JSON_parse :: "json \<Rightarrow> jsval" where
  "JSON_parse JsNull = JNull"
| "JSON_parse (JsBool b) = JBool b"
| "JSON_parse (JsNum n) = JNum n"
| "JSON_parse (JsStr s) = JStr s"
| "JSON_parse (JsArr js) = JArr (map JSON_parse js)"
| "JSON_parse (JsObj ps) = JObj (map (\<lambda>(k, j). (k, JSON_parse j)) ps)"

text \<open>Reading a property of a value: \<open>undefined\<close> when it is not there.\<close>

definition get_prop :: "string \<Rightarrow> jsval \<Rightarrow> jsval" where
  "get_prop k v =
     (case v of
        JObj kvs \<Rightarrow> (case map_of kvs k of None \<Rightarrow> JUndefined | Some x \<Rightarrow> x)
      | _ \<Rightarrow> JUndefined)"

text \<open>Whether a value is an object with the property as its own.\<close>

definition has_prop :: "string \<Rightarrow> jsval \<Rightarrow> bool" where
  "has_prop k v = (case v of JObj kvs \<Rightarrow> k \<in> fst ` set kvs | _ \<Rightarrow> False)"

text \<open>
  Writing a property in an object literal after a spread: a property that is there keeps
  its place, a new one goes last.
\<close>

fun obj_set :: "string \<Rightarrow> jsval \<Rightarrow> (string \<times> jsval) list \<Rightarrow> (string \<times> jsval) list" where
  "obj_set k v [] = [(k, v)]"
| "obj_set k v ((k', v') # ps) = (if k' = k then (k, v) # ps else (k', v') # obj_set k v ps)"

text \<open>The objects of the report as JavaScript values, properties in insertion order.\<close>

definition decoded_to_js :: "decoded \<Rightarrow> jsval" where
  "decoded_to_js d =
     JObj [(''method'', JStr (method_name d)),
           (''params'', JObj (map (\<lambda>(k, x). (k, JStr x)) (params d)))]"

definition analysis_to_js :: "analysis \<Rightarrow> jsval" where
  "analysis_to_js a =
     JObj ([(''hash'', JStr (a_hash a)),
            (''from'', JStr (a_from a)),
            (''to'', JStr (a_to a)),
            (''value'', JStr (a_value a)),
            (''input'', (case a_input a of None \<Rightarrow> JUndefined | Some inp \<Rightarrow> JStr inp)),
            (''timestamp'', JStr (timestamp a)),
            (''suspicious'', JBool (suspicious a)),
            (''reason'', JArr (map JStr (reason a)))]
           @ (case decodedInput a of None \<Rightarrow> [] | Some d \<Rightarrow> [(''decodedInput'', decoded_to_js d)]))"

definition sighting_to_js :: "sighting \<Rightarrow> jsval" where
  "sighting_to_js s =
     JObj [(''blockNumber'', JNum (int (s_blockNumber s))),
           (''implementation'', JStr (s_implementation s))]"

definition report_props :: "report \<Rightarrow> (string \<times> jsval) list" where
  "report_props r =
     [(''hackTransaction'', JStr (hackTransaction r)),
      (''victimContract'', JStr (victimContract r)),
      (''suspectAddress'', JStr (suspectAddress r)),
      (''startTime'', JStr (startTime r)),
      (''implementations'', JArr (implementations r)),
      (''contractCalls'', JArr (contractCalls r)),
      (''proxyOperations'', JArr (proxyOperations r)),
      (''suspiciousActions'', JArr (map analysis_to_js (suspiciousActions r))),
      (''relatedContracts'', JSet (map JStr (relatedContracts r))),
      (''stateChanges'', JArr (stateChanges r))]
     @ (case hackDetails r of None \<Rightarrow> [] | Some d \<Rightarrow> [(''hackDetails'', d)])
     @ (case victimAnalysis r of None \<Rightarrow> [] | Some d \<Rightarrow> [(''victimAnalysis'', d)])
     @ (case implementationHistory r of
          None \<Rightarrow> []
        | Some h \<Rightarrow> [(''implementationHistory'', JArr (map sighting_to_js h))])"

definition report_to_js :: "report \<Rightarrow> jsval" where
  "report_to_js r = JObj (report_props r)"

text \<open>
  \<open>saveToJson\<close>. The files written so far are a list of (prefix, content); the name of a
  file ends in the time of the write, so a write never replaces a file. Every throw
  inside is caught there and logged: the write is then missing, and the caller is not
  told.
\<close>

definition saveToJson :: "env \<Rightarrow> string \<Rightarrow> jsval \<Rightarrow> (string \<times> json) list \<Rightarrow> (string \<times> json) list" where
  "saveToJson e prefix data files =
     (if \<not> fsWrite e prefix then files
      else
        (case stringify SaveToJsonReplacer data of
           Inl _ \<Rightarrow> files
         | Inr None \<Rightarrow> files
         | Inr (Some safeData) \<Rightarrow> files @ [(prefix, safeData)]))"

text \<open>The constants of \<open>analyze_hack.js\<close>.\<close>

definition HACK_TX :: string where
  "HACK_TX = ''0xe97e555d9423cf40a7ffe4dcf6a795067f7f133b89efc0f472650528ad8535ca''"

definition VICTIM_CONTRACT :: string where
  "VICTIM_CONTRACT = ''0x8B5Ea07B683953c82901E0f3Ad1dCC66cdD79568''"

definition HACKER_ADDRESS :: string where
  "HACKER_ADDRESS = ''0x6d24389CEC21cd5437D5c581a40dAe6B336c9E5D''"

definition KNOWN_IMPLEMENTATION :: string where
  "KNOWN_IMPLEMENTATION = ''0x4660083D21e3A7e1eC5af8f46A31dCFAa78479Ed''"

text \<open>
  \<open>generateReports\<close> of \<open>analyze_hack.js\<close>, the JSON report: \<open>reportData\<close>, and what
  \<open>JSON.stringify\<close> makes of it. \<open>analysis\<close> is the report that \<open>analyzeFromHack\<close>
  returned, so its \<open>relatedContracts\<close> is a \<open>Set\<close>, and \<open>Array.from\<close> lists its elements
  in insertion order.
\<close>

definition reportData :: "env \<Rightarrow> report \<Rightarrow> jsval" where
  "reportData e analysis =
     JObj [(''metadata'',
            JObj [(''analyzedAt'', JStr (now e)),
                  (''hackTransaction'', JStr HACK_TX),
                  (''victimContract'', JStr VICTIM_CONTRACT),
                  (''hackerAddress'', JStr HACKER_ADDRESS),
                  (''knownImplementation'', JStr KNOWN_IMPLEMENTATION)]),
           (''analysis'',
            JObj (obj_set ''relatedContracts'' (JArr (map JStr (relatedContracts analysis)))
                    (report_props analysis)))]"

definition generateReports :: "env \<Rightarrow> report \<Rightarrow> error + json option" where
  "generateReports e analysis = stringify BigIntReplacer (reportData e analysis)"

section \<open>Report assembler\<close>

text \<open>
  The four methods that \<open>analyzeFromHack\<close> calls, as parameters: each takes the analyzer
  and leaves it changed, also when it throws.
\<close>

record methods =
  m_analyzeHackTransaction :: "string \<Rightarrow> analyzer \<Rightarrow> analyzer \<times> outcome"
  m_analyzeVictimContract :: "string \<Rightarrow> analyzer \<Rightarrow> analyzer \<times> outcome"
  m_traceContractCalls :: "string \<Rightarrow> analyzer \<Rightarrow> analyzer \<times> outcome"
  m_analyzeImplementationHistory :: "analyzer \<Rightarrow> analyzer \<times> outcome"

definition new_report :: "env \<Rightarrow> string \<Rightarrow> string \<Rightarrow> string \<Rightarrow> report" where
  "new_report e hackTxHash victim suspect =
     \<lparr>hackTransaction = hackTxHash,
      victimContract = victim,
      suspectAddress = suspect,
      startTime = now e,
      implementations = [],
      contractCalls = [],
      proxyOperations = [],
      suspiciousActions = [],
      relatedContracts = [],
      stateChanges = [],
      hackDetails = None,
      victimAnalysis = None,
      implementationHistory = None\<rparr>"

text \<open>
  The \<open>try\<close> block of \<open>analyzeFromHack\<close>, in the analyzer that checkpoints its report.
  With \<open>Returned\<close>, the value returned is the report of the analyzer.
\<close>

definition analyzeFromHack_try ::
  "env \<Rightarrow> methods \<Rightarrow> string \<Rightarrow> string \<Rightarrow> string \<Rightarrow> analyzer \<times> (string \<times> json) list
     \<Rightarrow> (analyzer \<times> (string \<times> json) list) \<times> outcome" where
  "analyzeFromHack_try e m hackTxHash victim suspect s =
     (case s of (st, files) \<Rightarrow>
       (case m_analyzeHackTransaction m hackTxHash
               (st\<lparr>report := new_report e hackTxHash victim suspect\<rparr>) of
          (st1, Returned) \<Rightarrow>
            (let files1 = saveToJson e (hackTxHash @ ''_step1.json'')
                            (report_to_js (report st1)) files in
             case m_analyzeVictimContract m victim st1 of
               (st2, Returned) \<Rightarrow>
                 (let files2 = saveToJson e (hackTxHash @ ''_step2.json'')
                                 (report_to_js (report st2)) files1 in
                  case m_traceContractCalls m suspect st2 of
                    (st3, Returned) \<Rightarrow>
                      (let files3 = saveToJson e (hackTxHash @ ''_step3.json'')
                                      (report_to_js (report st3)) files2 in
                       case m_analyzeImplementationHistory m st3 of
                         (st4, Returned) \<Rightarrow>
                           ((st4, saveToJson e (hackTxHash @ ''_final.json'')
                                    (report_to_js (report st4)) files3), Returned)
                       | (st4, out) \<Rightarrow> ((st4, files3), out))
                  | (st3, out) \<Rightarrow> ((st3, files2), out))
             | (st2, out) \<Rightarrow> ((st2, files1), out))
        | (st1, out) \<Rightarrow> ((st1, files), out)))"

text \<open>\<open>analyzeFromHack\<close>: the \<open>try\<close> block and its \<open>catch\<close>.\<close>

definition analyzeFromHack ::
  "env \<Rightarrow> methods \<Rightarrow> string \<Rightarrow> string \<Rightarrow> string \<Rightarrow> analyzer \<times> (string \<times> json) list
     \<Rightarrow> (analyzer \<times> (string \<times> json) list) \<times> outcome" where
  "analyzeFromHack e m hackTxHash victim suspect s =
     (case analyzeFromHack_try e m hackTxHash victim suspect s of
        ((st, files), Threw err) \<Rightarrow>
          ((st, saveToJson e (hackTxHash @ ''_error.json'') (report_to_js (report st)) files),
           Threw err)
      | res \<Rightarrow> res)"

section \<open>A sample chain\<close>

text \<open>
  A small chain and explorer on which the definitions can be run. The suspect has sent
  two transactions to the victim contract, the first an upgrade whose parameters are
  cut short, the second a plain transfer. The implementation slot of the victim is empty
  below block 1000, cannot be read at block 1000, and holds an implementation from then
  on. The head of the chain advances by 1000 blocks between two requests.
\<close>

definition ZERO_WORD :: string where
  "ZERO_WORD = ''0x0000000000000000000000000000000000000000000000000000000000000000''"

definition sample_word :: string where
  "sample_word = ''0x0000000000000000000000004660083D21e3A7e1eC5af8f46A31dCFAa78479Ed''"

definition sample_upgrade :: tx where
  "sample_upgrade =
     \<lparr>tx_hash = ''0x01'', tx_from = HACKER_ADDRESS, tx_to = VICTIM_CONTRACT, tx_value = ''0'',
      tx_input = Some ''0x3659cfe6000000000000000000000000'', tx_timeStamp = ''1700000000''\<rparr>"

definition sample_transfer :: tx where
  "sample_transfer =
     \<lparr>tx_hash = ''0x02'', tx_from = HACKER_ADDRESS, tx_to = VICTIM_CONTRACT, tx_value = ''5'',
      tx_input = Some ''0x'', tx_timeStamp = ''1700000100''\<rparr>"

definition sample_isAddress :: "string \<Rightarrow> bool" where
  "sample_isAddress a =
     (a = HACKER_ADDRESS \<or> a = VICTIM_CONTRACT \<or> a = KNOWN_IMPLEMENTATION \<or> a = ZERO_ADDRESS)"

definition sample_toChecksumAddress :: "string \<Rightarrow> error + string" where
  "sample_toChecksumAddress a =
     (if length a = 42 then Inr a else Inl (Error ''invalid address''))"

definition sample_decodeParameters ::
  "(string \<times> string) list \<Rightarrow> string \<Rightarrow> error + (string \<times> string) list" where
  "sample_decodeParameters abi d =
     (if length d < 64 * length abi then Inl (Error ''insufficient data'')
      else Inr [(''0'', ''0x'' @ slice 24 64 d)])"

definition sample_getCode :: "string \<Rightarrow> error + string" where
  "sample_getCode a = (if a = VICTIM_CONTRACT then Inr ''0x6080'' else Inr ''0x'')"

definition sample_getStorageAt :: "string \<Rightarrow> string \<Rightarrow> nat \<Rightarrow> error + string" where
  "sample_getStorageAt a slot h =
     (if h = 1000 then Inl (Error ''timeout'')
      else if h < 1000 then Inr ZERO_WORD
      else Inr sample_word)"

definition sample_getBlockNumber :: "nat \<Rightarrow> error + nat" where
  "sample_getBlockNumber k = Inr (2500 + 1000 * k)"

definition sample_txlist :: "string \<Rightarrow> error + api_response" where
  "sample_txlist a =
     (if a = HACKER_ADDRESS
      then Inr \<lparr>status = ''1'', result = [sample_upgrade, sample_transfer]\<rparr>
      else Inr \<lparr>status = ''0'', result = []\<rparr>)"

definition sample_toISOString :: "string \<Rightarrow> error + string" where
  "sample_toISOString s =
     (if s = [] then Inl (Error ''RangeError: Invalid time value'') else Inr s)"

definition sample_fsWrite :: "string \<Rightarrow> bool" where
  "sample_fsWrite prefix = True"

definition sample_env :: env where
  "sample_env =
     \<lparr>isAddress = sample_isAddress,
      toChecksumAddress = sample_toChecksumAddress,
      decodeParameters = sample_decodeParameters,
      getCode = sample_getCode,
      getStorageAt = sample_getStorageAt,
      getBlockNumber = sample_getBlockNumber,
      txlist = sample_txlist,
      toISOString = sample_toISOString,
      now = ''2024-11-02T00:00:00.000Z'',
      fsWrite = sample_fsWrite\<rparr>"

text \<open>A new analyzer, as the constructor leaves it, with the report of a new run.\<close>

definition sample_analyzer :: analyzer where
  "sample_analyzer =
     \<lparr>processedContracts = {},
      report = new_report sample_env HACK_TX VICTIM_CONTRACT HACKER_ADDRESS,
      requests = []\<rparr>"

text \<open>
  Methods for the sample chain: the first phase throws when the transaction hash is
  empty, the second does nothing; the crawl and the sampler are the modelled ones.
\<close>

definition sample_analyzeHackTransaction :: "string \<Rightarrow> analyzer \<Rightarrow> analyzer \<times> outcome" where
  "sample_analyzeHackTransaction txHash st =
     (if txHash = [] then (st, Threw (Error ''transaction not found''))
      else (st\<lparr>report := (report st)\<lparr>hackDetails := Some (JObj [(''gas'', JBigInt 21000)])\<rparr>\<rparr>,
            Returned))"

definition sample_analyzeVictimContract :: "string \<Rightarrow> analyzer \<Rightarrow> analyzer \<times> outcome" where
  "sample_analyzeVictimContract address st = (st, Returned)"

definition sample_methods :: methods where
  "sample_methods =
     \<lparr>m_analyzeHackTransaction = sample_analyzeHackTransaction,
      m_analyzeVictimContract = sample_analyzeVictimContract,
      m_traceContractCalls = traceContractCalls sample_env 10,
      m_analyzeImplementationHistory = analyzeImplementationHistory sample_env\<rparr>"

section \<open>Properties of the transaction classifier\<close>

lemma slice_take: "slice 0 n s = take n s"
  by (simp add: slice_def)

lemma isSuspiciousSignature_iff:
  "isSuspiciousSignature sg \<longleftrightarrow>
     sg = ''0x3659cfe6'' \<or> sg = ''0x4f1ef286'' \<or> sg = ''0x8f283970''"
  by (simp add: isSuspiciousSignature_def UPGRADE_TO_def UPGRADE_TO_AND_CALL_def
      CHANGE_ADMIN_def)

lemma classify_input_long:
  assumes "tx_input t = Some inp" and "10 \<le> length inp"
  shows "classify_input e t a =
     (if isSuspiciousSignature (take 10 inp)
      then a\<lparr>decodedInput := Some (decodeTransactionInput e (Some inp)),
              suspicious := True, reason := reason a @ [''suspicious_signature'']\<rparr>
      else a\<lparr>decodedInput := Some (decodeTransactionInput e (Some inp))\<rparr>)"
  using assms by (auto simp: classify_input_def truthy_def slice_take Let_def)

lemma classify_input_short:
  assumes "tx_input t = None \<or> (\<exists>inp. tx_input t = Some inp \<and> length inp < 10)"
  shows "classify_input e t a = a"
  using assms by (auto simp: classify_input_def)

text \<open>
  Claim C1. A transaction whose input holds at least the ten characters of a selector
  (\<open>0x\<close> and eight hex digits) is analyzed without a throw once its timestamp is a date,
  and the analysis is suspicious with reason \<open>["suspicious_signature"]\<close> exactly when the
  leading ten characters are \<open>0x3659cfe6\<close> (UPGRADE_TO), \<open>0x4f1ef286\<close>
  (UPGRADE_TO_AND_CALL) or \<open>0x8f283970\<close> (CHANGE_ADMIN). With any other selector,
  INITIALIZE among them, it is not suspicious and has no reason.
\<close>

theorem selector_classification:
  assumes "tx_input t = Some inp" and "10 \<le> length inp"
    and "toISOString e (tx_timeStamp t) = Inr ts"
  shows "\<exists>a. analyzeSingleTransaction e t = Inr a
     \<and> ((suspicious a \<and> reason a = [''suspicious_signature''])
          \<longleftrightarrow> take 10 inp \<in> {''0x3659cfe6'', ''0x4f1ef286'', ''0x8f283970''})
     \<and> (take 10 inp \<notin> {''0x3659cfe6'', ''0x4f1ef286'', ''0x8f283970''}
          \<longrightarrow> \<not> suspicious a \<and> reason a = [])
     \<and> (take 10 inp = INITIALIZE \<longrightarrow> \<not> suspicious a \<and> reason a = [])"
  using assms
  by (simp add: analyzeSingleTransaction_def classify_input_long isSuspiciousSignature_iff
      INITIALIZE_def)

theorem selector_classification_witness:
  "tx_input sample_upgrade = Some ''0x3659cfe6000000000000000000000000''
   \<and> (\<exists>a. analyzeSingleTransaction sample_env sample_upgrade = Inr a
        \<and> suspicious a \<and> reason a = [''suspicious_signature''])"
proof -
  have h1: "tx_input sample_upgrade = Some ''0x3659cfe6000000000000000000000000''"
    by (simp add: sample_upgrade_def)
  have h2: "10 \<le> length ''0x3659cfe6000000000000000000000000''"
    by simp
  have h3: "toISOString sample_env (tx_timeStamp sample_upgrade) = Inr ''1700000000''"
    by (simp add: sample_env_def sample_upgrade_def sample_toISOString_def)
  from selector_classification [OF h1 h2 h3] h1 show ?thesis
    by auto
qed

lemma find_signature:
  "(name, sg) \<in> set FUNCTION_SIGNATURES \<Longrightarrow>
     find (\<lambda>(_, s). s = sg) FUNCTION_SIGNATURES = Some (name, sg)"
  by (auto simp: FUNCTION_SIGNATURES_def UPGRADE_TO_def UPGRADE_TO_AND_CALL_def
      CHANGE_ADMIN_def INITIALIZE_def)

lemma signature_name_known:
  "(name, sg) \<in> set FUNCTION_SIGNATURES \<Longrightarrow> name \<noteq> ''unknown''"
  by (auto simp: FUNCTION_SIGNATURES_def)

lemma decodeTransactionInput_failure:
  assumes "10 \<le> length inp"
    and "(functionName, take 10 inp) \<in> set FUNCTION_SIGNATURES"
    and "getAbiByFunctionName functionName = Some paramsAbi"
    and "decodeParameters e paramsAbi (drop 10 inp) = Inl err"
  shows "decodeTransactionInput e (Some inp) = \<lparr>method_name = functionName, params = []\<rparr>"
proof -
  have "truthy inp" using assms(1) by (auto simp: truthy_def)
  then show ?thesis
    using assms find_signature[OF assms(2)]
    by (simp add: decodeTransactionInput_def slice_take slice_from_def)
qed

text \<open>
  Claim C2, as the code has it. When the selector of an input is one of the four known
  signatures and decoding the trailing parameters throws, the decoded input keeps the
  name of the matched function (never \<open>"unknown"\<close>) with empty \<open>params\<close>, and the
  suspicious flag is the one that the selector alone determines.
\<close>

theorem decode_failure_keeps_method:
  assumes "tx_input t = Some inp" and "10 \<le> length inp"
    and "toISOString e (tx_timeStamp t) = Inr ts"
    and "(functionName, take 10 inp) \<in> set FUNCTION_SIGNATURES"
    and "getAbiByFunctionName functionName = Some paramsAbi"
    and "decodeParameters e paramsAbi (drop 10 inp) = Inl err"
  shows "\<exists>a. analyzeSingleTransaction e t = Inr a
     \<and> decodedInput a = Some \<lparr>method_name = functionName, params = []\<rparr>
     \<and> functionName \<noteq> ''unknown''
     \<and> suspicious a = isSuspiciousSignature (take 10 inp)"
  using assms(1-3) decodeTransactionInput_failure[OF assms(2,4,5,6)]
    signature_name_known[OF assms(4)]
  by (simp add: analyzeSingleTransaction_def classify_input_long)

theorem decode_failure_keeps_method_witness:
  "decodeParameters sample_env [(''implementation'', ''address'')]
      (drop 10 ''0x3659cfe6000000000000000000000000'') = Inl (Error ''insufficient data'')
   \<and> (\<exists>a. analyzeSingleTransaction sample_env sample_upgrade = Inr a
        \<and> decodedInput a = Some \<lparr>method_name = ''UPGRADE_TO'', params = []\<rparr>
        \<and> suspicious a)"
proof -
  have h1: "tx_input sample_upgrade = Some ''0x3659cfe6000000000000000000000000''"
    by (simp add: sample_upgrade_def)
  have h2: "10 \<le> length ''0x3659cfe6000000000000000000000000''"
    by simp
  have h3: "toISOString sample_env (tx_timeStamp sample_upgrade) = Inr ''1700000000''"
    by (simp add: sample_env_def sample_upgrade_def sample_toISOString_def)
  have h4: "(''UPGRADE_TO'', take 10 ''0x3659cfe6000000000000000000000000'')
      \<in> set FUNCTION_SIGNATURES"
    by (simp add: FUNCTION_SIGNATURES_def UPGRADE_TO_def)
  have h5: "getAbiByFunctionName ''UPGRADE_TO'' = Some [(''implementation'', ''address'')]"
    by (simp add: getAbiByFunctionName_def abiMapping_def)
  have h6: "decodeParameters sample_env [(''implementation'', ''address'')]
      (drop 10 ''0x3659cfe6000000000000000000000000'') = Inl (Error ''insufficient data'')"
    by (simp add: sample_env_def sample_decodeParameters_def)
  from decode_failure_keeps_method [OF h1 h2 h3 h4 h5 h6] h6 show ?thesis
    by (auto simp: isSuspiciousSignature_def UPGRADE_TO_def)
qed

text \<open>
  Claim C2 as stated fails: on the sample chain the parameters of the upgrade
  transaction are cut short, decoding throws, and the decoded input is
  \<open>{method: "UPGRADE_TO", params: {}}\<close>, not \<open>{method: "unknown", params: {}}\<close>.
\<close>

theorem decode_failure_counterexample:
  "decodeParameters sample_env [(''implementation'', ''address'')]
      (slice_from 10 ''0x3659cfe6000000000000000000000000'') = Inl (Error ''insufficient data'')
   \<and> decodeTransactionInput sample_env (Some ''0x3659cfe6000000000000000000000000'')
       = \<lparr>method_name = ''UPGRADE_TO'', params = []\<rparr>
   \<and> decodeTransactionInput sample_env (Some ''0x3659cfe6000000000000000000000000'')
       \<noteq> unknown_input"
  by (simp add: decodeTransactionInput_def truthy_def slice_def slice_from_def
      FUNCTION_SIGNATURES_def UPGRADE_TO_def getAbiByFunctionName_def abiMapping_def
      sample_env_def sample_decodeParameters_def unknown_input_def)

text \<open>
  Claim C10. When the input of a transaction is missing or shorter than ten characters,
  the analysis (in both analyzers) is not suspicious, has no reason, and has no
  \<open>decodedInput\<close> property at all.
\<close>

theorem short_input_analysis:
  assumes "tx_input t = None \<or> (\<exists>inp. tx_input t = Some inp \<and> length inp < 10)"
    and "toISOString e (tx_timeStamp t) = Inr ts"
  shows "\<exists>a b. analyzeSingleTransaction e t = Inr a
     \<and> analyzeSingleTransaction_ckpt e t = Inr b
     \<and> \<not> suspicious a \<and> reason a = [] \<and> decodedInput a = None
     \<and> \<not> has_prop ''decodedInput'' (analysis_to_js a)
     \<and> \<not> suspicious b \<and> reason b = [] \<and> decodedInput b = None
     \<and> \<not> has_prop ''decodedInput'' (analysis_to_js b)"
  using assms(2) classify_input_short[OF assms(1)]
  by (simp add: analyzeSingleTransaction_def analyzeSingleTransaction_ckpt_def
      has_prop_def analysis_to_js_def)

theorem short_input_analysis_witness:
  "tx_input sample_transfer = Some ''0x''
   \<and> (\<exists>a b. analyzeSingleTransaction sample_env sample_transfer = Inr a
        \<and> analyzeSingleTransaction_ckpt sample_env sample_transfer = Inr b
        \<and> \<not> suspicious a \<and> reason a = [] \<and> decodedInput a = None
        \<and> \<not> suspicious b \<and> reason b = [] \<and> decodedInput b = None)"
proof -
  have h1: "tx_input sample_transfer = None
      \<or> (\<exists>inp. tx_input sample_transfer = Some inp \<and> length inp < 10)"
    by (simp add: sample_transfer_def)
  have h2: "toISOString sample_env (tx_timeStamp sample_transfer) = Inr ''1700000100''"
    by (simp add: sample_env_def sample_transfer_def sample_toISOString_def)
  have h3: "tx_input sample_transfer = Some ''0x''"
    by (simp add: sample_transfer_def)
  from short_input_analysis [OF h1 h2] h3 show ?thesis
    by blast
qed

section \<open>Properties of the implementation history sampler\<close>

lemma no_multiple_between:
  fixes c h :: nat
  assumes "1000 dvd c" "c < h" "h < c + 1000"
  shows "\<not> 1000 dvd h"
proof
  assume "1000 dvd h"
  then have "1000 dvd (h - c)" using assms(1) by (rule dvd_diff_nat)
  moreover have "0 < h - c" "h - c < 1000" using assms by auto
  ultimately show False by (auto dest: dvd_imp_le)
qed

lemma strided_heights_step:
  fixes c L :: nat
  assumes "1000 dvd c" "c < L"
  shows "[h\<leftarrow>[c..<L]. 1000 dvd h] = c # [h\<leftarrow>[c + 1000..<L]. 1000 dvd h]"
proof -
  have "[c..<L] = c # [Suc c..<L]" using assms(2) by (simp add: upt_conv_Cons)
  moreover have "[h\<leftarrow>[Suc c..<L]. 1000 dvd h] = [h\<leftarrow>[c + 1000..<L]. 1000 dvd h]"
  proof (cases "c + 1000 \<le> L")
    case True
    then obtain k where k: "L = c + 1000 + k" by (auto simp: le_iff_add)
    have "[Suc c..<c + 1000 + k] = [Suc c..<c + 1000] @ [c + 1000..<c + 1000 + k]"
      by (rule upt_add_eq_append) simp
    with k have "[Suc c..<L] = [Suc c..<c + 1000] @ [c + 1000..<L]" by simp
    moreover have "[h\<leftarrow>[Suc c..<c + 1000]. 1000 dvd h] = []"
      using no_multiple_between[OF assms(1)] by (auto simp: filter_empty_conv)
    ultimately show ?thesis by simp
  next
    case False
    then have "[h\<leftarrow>[Suc c..<L]. 1000 dvd h] = []"
      using no_multiple_between[OF assms(1)] by (auto simp: filter_empty_conv)
    with False show ?thesis by simp
  qed
  ultimately show ?thesis using assms(1) by simp
qed

lemma history_loop_requests:
  "1000 dvd c \<Longrightarrow>
   snd (history_loop e v c L (impls, reqs)) =
     reqs @ map (StorageRequest v) [h\<leftarrow>[c..<L]. 1000 dvd h]"
proof (induction e v c L "(impls, reqs)" arbitrary: impls reqs rule: history_loop.induct)
  case (1 e victim currentBlock latestBlock implementations reqs)
  show ?case
  proof (cases "currentBlock < latestBlock")
    case True
    have d: "1000 dvd currentBlock + 1000" using "1.prems" by simp
    show ?thesis
      using True "1.hyps"[OF True d] strided_heights_step[OF "1.prems" True]
      by (subst history_loop.simps) simp
  next
    case False
    then show ?thesis by (subst history_loop.simps) simp
  qed
qed


lemma storage_requests_append:
  "storage_requests (xs @ ys) = storage_requests xs @ storage_requests ys"
  by (induction xs rule: storage_requests.induct) auto

lemma storage_requests_map: "storage_requests (map (StorageRequest v) hs) = hs"
  by (induction hs) auto

lemma strided_heights_2500: "[h\<leftarrow>[0..<2500]. (1000::nat) dvd h] = [0, 1000, 2000]"
proof -
  have s1: "[h\<leftarrow>[0..<2500]. (1000::nat) dvd h] = 0 # [h\<leftarrow>[0 + 1000..<2500]. 1000 dvd h]"
    by (rule strided_heights_step) simp_all
  have s2: "[h\<leftarrow>[0 + 1000..<2500]. (1000::nat) dvd h]
      = (0 + 1000) # [h\<leftarrow>[0 + 1000 + 1000..<2500]. 1000 dvd h]"
    by (rule strided_heights_step) simp_all
  have s3: "[h\<leftarrow>[0 + 1000 + 1000..<2500]. (1000::nat) dvd h]
      = (0 + 1000 + 1000) # [h\<leftarrow>[0 + 1000 + 1000 + 1000..<2500]. 1000 dvd h]"
    by (rule strided_heights_step) simp_all
  have s4: "[0 + 1000 + 1000 + 1000..<2500::nat] = []"
    by (rule upt_conv_Nil) simp
  show ?thesis
    unfolding s1 s2 s3 s4 by simp
qed

text \<open>
  Claim C5. Once the head of the chain has been read, the sampler returns. It sends one
  block-number request, at its start, and then reads the storage of the victim at the
  multiples of 1000 below the block number it was given, in increasing order: it starts
  at block 0, steps by 1000, and the block number read at the start is the exclusive
  bound, whatever later requests would answer. With 2500 as that number the heights read
  are 0, 1000 and 2000.
\<close>

theorem sampler_heights:
  assumes "getBlockNumber e (count_list (requests st) BlockNumberRequest) = Inr latestBlock"
  shows "\<exists>st'. analyzeImplementationHistory e st = (st', Returned)
     \<and> requests st' = requests st @ BlockNumberRequest
           # map (StorageRequest (victimContract (report st)))
               [h\<leftarrow>[0..<latestBlock]. 1000 dvd h]
     \<and> (latestBlock = 2500 \<longrightarrow>
           storage_requests (requests st') = storage_requests (requests st) @ [0, 1000, 2000])"
proof -
  let ?v = "victimContract (report st)"
  let ?r = "requests st @ [BlockNumberRequest]"
  obtain impls reqs where loop: "history_loop e ?v 0 latestBlock ([], ?r) = (impls, reqs)"
    by (cases "history_loop e ?v 0 latestBlock ([], ?r)") auto
  have reqs: "reqs = ?r @ map (StorageRequest ?v) [h\<leftarrow>[0..<latestBlock]. 1000 dvd h]"
    using history_loop_requests[of 0 e ?v latestBlock "[]" ?r] loop by simp
  have "latestBlock = 2500 \<Longrightarrow> storage_requests reqs = storage_requests (requests st) @ [0, 1000, 2000]"
    using reqs strided_heights_2500
    by (simp add: storage_requests_append storage_requests_map del: upt_rec_numeral)
  then show ?thesis
    using assms loop reqs
    by (simp add: analyzeImplementationHistory_def Let_def del: upt_rec_numeral)
qed

theorem sampler_heights_witness:
  "getBlockNumber sample_env (count_list (requests sample_analyzer) BlockNumberRequest) = Inr 2500
   \<and> (\<exists>st'. analyzeImplementationHistory sample_env sample_analyzer = (st', Returned)
        \<and> storage_requests (requests st') = [0, 1000, 2000])"
proof -
  have h: "getBlockNumber sample_env (count_list (requests sample_analyzer) BlockNumberRequest)
      = Inr 2500"
    by (simp add: sample_env_def sample_analyzer_def sample_getBlockNumber_def)
  have "storage_requests (requests sample_analyzer) = []"
    by (simp add: sample_analyzer_def)
  with sampler_heights [OF h] h show ?thesis
    by (auto simp del: upt_rec_numeral)
qed

text \<open>
  A storage read that throws, or a normalization that throws, makes
  \<open>getImplementationAt\<close> return \<open>null\<close>; the loop goes on with the next height.
\<close>

lemma getImplementationAt_read_failure:
  "getStorageAt e c STORAGE_SLOT_IMPLEMENTATION h = Inl err \<Longrightarrow> getImplementationAt e c h = None"
  by (simp add: getImplementationAt_def)

lemma normalizeAddress_ZERO_WORD:
  "normalizeAddress e ZERO_WORD = toChecksumAddress e ZERO_ADDRESS"
  by (simp add: normalizeAddress_def slice_last_def ZERO_WORD_def ZERO_ADDRESS_def)

lemma getImplementationAt_zero_word:
  assumes "getStorageAt e c STORAGE_SLOT_IMPLEMENTATION h = Inr ZERO_WORD"
    and "toChecksumAddress e ZERO_ADDRESS = Inr ZERO_ADDRESS"
  shows "getImplementationAt e c h = Some ZERO_ADDRESS"
proof -
  have "truthy ZERO_WORD" "ZERO_WORD \<noteq> ZERO_ADDRESS"
    by (simp_all add: truthy_def ZERO_WORD_def ZERO_ADDRESS_def)
  then show ?thesis
    using assms by (simp add: getImplementationAt_def normalizeAddress_ZERO_WORD)
qed

text \<open>
  Claim C4, evaluated on the sample chain. The implementation slot of the victim holds
  32 zero bytes at block 0, and the sampler records a sighting of the zero address for
  block 0: \<open>getImplementationAt\<close> compares the 32-byte word with the 20-byte zero
  address, which it never equals. The read at block 1000 throws and is skipped, and the
  scan goes on to block 2000.
\<close>

theorem zero_slot_is_recorded:
  "getStorageAt sample_env VICTIM_CONTRACT STORAGE_SLOT_IMPLEMENTATION 0 = Inr ZERO_WORD
   \<and> getImplementationAt sample_env VICTIM_CONTRACT 0 = Some ZERO_ADDRESS
   \<and> analyzeImplementationHistory sample_env sample_analyzer =
       (sample_analyzer
          \<lparr>report := (report sample_analyzer)
             \<lparr>implementationHistory :=
                Some [\<lparr>s_blockNumber = 0, s_implementation = ZERO_ADDRESS\<rparr>,
                      \<lparr>s_blockNumber = 2000, s_implementation = KNOWN_IMPLEMENTATION\<rparr>]\<rparr>,
           requests := [BlockNumberRequest, StorageRequest VICTIM_CONTRACT 0,
                        StorageRequest VICTIM_CONTRACT 1000, StorageRequest VICTIM_CONTRACT 2000]\<rparr>,
        Returned)"
proof -
  have r0: "getStorageAt sample_env VICTIM_CONTRACT STORAGE_SLOT_IMPLEMENTATION 0 = Inr ZERO_WORD"
    by (simp add: sample_env_def sample_getStorageAt_def)
  have c0: "toChecksumAddress sample_env ZERO_ADDRESS = Inr ZERO_ADDRESS"
    by (simp add: sample_env_def sample_toChecksumAddress_def ZERO_ADDRESS_def)
  have i0: "getImplementationAt sample_env VICTIM_CONTRACT 0 = Some ZERO_ADDRESS"
    using r0 c0 by (rule getImplementationAt_zero_word)
  have i1: "getImplementationAt sample_env VICTIM_CONTRACT 1000 = None"
    by (rule getImplementationAt_read_failure [where err = "Error ''timeout''"])
       (simp add: sample_env_def sample_getStorageAt_def)
  have i2: "getImplementationAt sample_env VICTIM_CONTRACT 2000 = Some KNOWN_IMPLEMENTATION"
    by (simp add: getImplementationAt_def normalizeAddress_def slice_last_def truthy_def
        sample_env_def sample_getStorageAt_def sample_toChecksumAddress_def sample_word_def
        ZERO_ADDRESS_def KNOWN_IMPLEMENTATION_def)
  have t: "truthy ZERO_ADDRESS" "truthy KNOWN_IMPLEMENTATION"
    by (simp_all add: truthy_def ZERO_ADDRESS_def KNOWN_IMPLEMENTATION_def)
  have v: "victimContract (report sample_analyzer) = VICTIM_CONTRACT"
    by (simp add: sample_analyzer_def new_report_def)
  have b: "getBlockNumber sample_env (count_list (requests sample_analyzer) BlockNumberRequest)
      = Inr 2500"
    by (simp add: sample_env_def sample_analyzer_def sample_getBlockNumber_def)
  have q: "requests sample_analyzer = []"
    by (simp add: sample_analyzer_def)
  have "history_loop sample_env VICTIM_CONTRACT 0 2500 ([], [BlockNumberRequest]) =
      ([\<lparr>s_blockNumber = 0, s_implementation = ZERO_ADDRESS\<rparr>,
        \<lparr>s_blockNumber = 2000, s_implementation = KNOWN_IMPLEMENTATION\<rparr>],
       [BlockNumberRequest, StorageRequest VICTIM_CONTRACT 0,
        StorageRequest VICTIM_CONTRACT 1000, StorageRequest VICTIM_CONTRACT 2000])"
    by (simp add: history_loop.simps i0 i1 i2 t)
  then show ?thesis
    using r0 i0 b v q by (simp add: analyzeImplementationHistory_def Let_def)
qed

section \<open>Properties of the state inspector\<close>

text \<open>
  Claim C6. With a checksum function that leaves the zero address as it is (it has no
  letters to capitalize), a slot word of 32 zero bytes normalizes to the zero address,
  and \<open>getContractState\<close> returns it as the value of the slot, for any address and block
  height: a state with a zero implementation or a zero admin is a value, not a throw.
\<close>

theorem zero_word_normalization:
  assumes "toChecksumAddress e ZERO_ADDRESS = Inr ZERO_ADDRESS"
  shows "normalizeAddress e ZERO_WORD = Inr ZERO_ADDRESS
     \<and> (getStorageAt e address STORAGE_SLOT_IMPLEMENTATION blockNumber = Inr ZERO_WORD
          \<and> getStorageAt e address STORAGE_SLOT_ADMIN blockNumber = Inr admin_word
          \<and> normalizeAddress e admin_word = Inr a
        \<longrightarrow> getContractState e address blockNumber
              = Inr \<lparr>implementation = ZERO_ADDRESS, admin = a\<rparr>)
     \<and> (getStorageAt e address STORAGE_SLOT_IMPLEMENTATION blockNumber = Inr impl_word
          \<and> getStorageAt e address STORAGE_SLOT_ADMIN blockNumber = Inr ZERO_WORD
          \<and> normalizeAddress e impl_word = Inr i
        \<longrightarrow> getContractState e address blockNumber
              = Inr \<lparr>implementation = i, admin = ZERO_ADDRESS\<rparr>)"
  using assms by (simp add: getContractState_def normalizeAddress_ZERO_WORD)

theorem zero_word_normalization_witness:
  "toChecksumAddress sample_env ZERO_ADDRESS = Inr ZERO_ADDRESS
   \<and> getStorageAt sample_env VICTIM_CONTRACT STORAGE_SLOT_IMPLEMENTATION 0 = Inr ZERO_WORD
   \<and> getStorageAt sample_env VICTIM_CONTRACT STORAGE_SLOT_ADMIN 0 = Inr ZERO_WORD
   \<and> normalizeAddress sample_env ZERO_WORD = Inr ZERO_ADDRESS
   \<and> getContractState sample_env VICTIM_CONTRACT 0
       = Inr \<lparr>implementation = ZERO_ADDRESS, admin = ZERO_ADDRESS\<rparr>"
proof -
  have c0: "toChecksumAddress sample_env ZERO_ADDRESS = Inr ZERO_ADDRESS"
    by (simp add: sample_env_def sample_toChecksumAddress_def ZERO_ADDRESS_def)
  have r: "getStorageAt sample_env VICTIM_CONTRACT STORAGE_SLOT_IMPLEMENTATION 0 = Inr ZERO_WORD"
    "getStorageAt sample_env VICTIM_CONTRACT STORAGE_SLOT_ADMIN 0 = Inr ZERO_WORD"
    by (simp_all add: sample_env_def sample_getStorageAt_def)
  from zero_word_normalization [OF c0, of VICTIM_CONTRACT 0 ZERO_WORD ZERO_ADDRESS] c0 r
  show ?thesis by simp
qed

section \<open>Properties of the interaction graph crawler\<close>

text \<open>
  The inner loop touches neither \<open>processedContracts\<close> nor the explorer. Each visit of
  the outer loop that passes both guards adds its address to \<open>processedContracts\<close> and
  requests its transaction list; the invariant relates the two.
\<close>

lemma txlist_requests_append:
  "txlist_requests (xs @ ys) = txlist_requests xs @ txlist_requests ys"
  by (induction xs rule: txlist_requests.induct) auto

lemma tx_loop_keeps:
  "tx_loop e ts cta st = ((cta', st'), r) \<Longrightarrow>
     processedContracts st' = processedContracts st \<and> requests st' = requests st"
  by (induction ts arbitrary: cta st)
     (auto simp: Let_def split: sum.splits if_splits)

lemma getContractTransactions_valid:
  "isValidAddress e a \<Longrightarrow> fst (getContractTransactions e a) = [TxListRequest a]"
  by (simp add: getContractTransactions_def)

lemma crawl_loop_invariant:
  "crawl_loop e fuel i cta st = (st', out) \<Longrightarrow>
   \<exists>new. txlist_requests (requests st') = txlist_requests (requests st) @ new
        \<and> distinct new
        \<and> set new \<inter> processedContracts st = {}
        \<and> (\<forall>a\<in>set new. isValidAddress e a)
        \<and> processedContracts st' = processedContracts st \<union> set new"
proof (induction fuel arbitrary: i cta st)
  case 0
  then show ?case by (auto split: if_splits)
next
  case (Suc fuel)
  show ?case
  proof (cases "length cta \<le> i")
    case True
    with Suc.prems show ?thesis by auto
  next
    case False
    define c where "c = cta ! i"
    show ?thesis
    proof (cases "\<not> isValidAddress e c \<or> c \<in> processedContracts st")
      case True
      with False Suc.prems have "crawl_loop e fuel (Suc i) cta st = (st', out)"
        by (auto simp: c_def Let_def split: if_splits)
      from Suc.IH[OF this] show ?thesis .
    next
      case fresh: False
      then have valid: "isValidAddress e c" and notin: "c \<notin> processedContracts st" by auto
      obtain fetched where g: "getContractTransactions e c = ([TxListRequest c], fetched)"
        using getContractTransactions_valid[OF valid] by (cases "getContractTransactions e c") auto
      define st1 where "st1 = st\<lparr>processedContracts := insert c (processedContracts st),
                              requests := requests st @ [TxListRequest c]\<rparr>"
      have step: "txlist_requests (requests st1) = txlist_requests (requests st) @ [c]"
        "processedContracts st1 = insert c (processedContracts st)"
        by (simp_all add: st1_def txlist_requests_append)
      show ?thesis
      proof (cases fetched)
        case (Inl err)
        with False fresh g Suc.prems have "st' = st1"
          by (auto simp: c_def[symmetric] Let_def st1_def)
        with step valid notin show ?thesis by auto
      next
        case (Inr transactions)
        obtain cta1 st2 r where t: "tx_loop e transactions cta st1 = ((cta1, st2), r)"
          by (metis prod.exhaust)
        from tx_loop_keeps[OF t] step have step2:
          "txlist_requests (requests st2) = txlist_requests (requests st) @ [c]"
          "processedContracts st2 = insert c (processedContracts st)" by simp_all
        show ?thesis
        proof (cases r)
          case (Some err)
          with False fresh g Inr t Suc.prems have "st' = st2"
            by (auto simp: c_def[symmetric] Let_def st1_def[symmetric])
          with step2 valid notin show ?thesis by auto
        next
          case None
          with False fresh g Inr t Suc.prems
          have "crawl_loop e fuel (Suc i) cta1 st2 = (st', out)"
            by (auto simp: c_def[symmetric] Let_def st1_def[symmetric])
          from Suc.IH[OF this] obtain new where new:
            "txlist_requests (requests st') = txlist_requests (requests st2) @ new"
            "distinct new" "set new \<inter> processedContracts st2 = {}"
            "\<forall>a\<in>set new. isValidAddress e a"
            "processedContracts st' = processedContracts st2 \<union> set new" by blast
          have "txlist_requests (requests st') = txlist_requests (requests st) @ (c # new)"
            using new(1) step2(1) by simp
          moreover have "distinct (c # new)" using new(2,3) step2(2) by auto
          moreover have "set (c # new) \<inter> processedContracts st = {}"
            using new(3) step2(2) notin by auto
          moreover have "\<forall>a\<in>set (c # new). isValidAddress e a" using new(4) valid by auto
          moreover have "processedContracts st' = processedContracts st \<union> set (c # new)"
            using new(5) step2(2) by auto
          ultimately show ?thesis by blast
        qed
      qed
    qed
  qed
qed


lemma set_add_idempotent: "set_add a (set_add a xs) = set_add a xs"
  by (simp add: set_add_def)

lemma set_add_distinct: "distinct xs \<Longrightarrow> distinct (set_add a xs)"
  by (simp add: set_add_def)

text \<open>
  Claim C3. However far the crawl is followed, and whether it returns, throws or is still
  running: the addresses processed during the crawl (those whose transaction list was
  requested) are pairwise distinct, each of them is valid and was not processed before,
  and \<open>processedContracts\<close> has grown by exactly these addresses. So an address is
  processed at most once, however often it was added to \<open>contractsToAnalyze\<close>, and an
  address that fails the validator is in \<open>processedContracts\<close> after the crawl only if it
  was there before.
\<close>

theorem frontier_idempotence:
  assumes "traceContractCalls e fuel startAddress st = (st', out)"
  shows "\<exists>new. txlist_requests (requests st') = txlist_requests (requests st) @ new
     \<and> distinct new
     \<and> (\<forall>a\<in>set new. isValidAddress e a \<and> a \<notin> processedContracts st)
     \<and> processedContracts st' = processedContracts st \<union> set new
     \<and> (\<forall>a. \<not> isValidAddress e a \<longrightarrow>
           (a \<in> processedContracts st' \<longleftrightarrow> a \<in> processedContracts st))"
proof -
  from assms have "crawl_loop e fuel 0 [startAddress] st = (st', out)"
    by (simp add: traceContractCalls_def)
  from crawl_loop_invariant[OF this] obtain new where new:
    "txlist_requests (requests st') = txlist_requests (requests st) @ new"
    "distinct new" "set new \<inter> processedContracts st = {}"
    "\<forall>a\<in>set new. isValidAddress e a"
    "processedContracts st' = processedContracts st \<union> set new" by blast
  from new(3,4) have "\<forall>a\<in>set new. isValidAddress e a \<and> a \<notin> processedContracts st"
    by blast
  moreover from new(4,5) have "\<forall>a. \<not> isValidAddress e a \<longrightarrow>
      (a \<in> processedContracts st' \<longleftrightarrow> a \<in> processedContracts st)"
    by blast
  ultimately show ?thesis using new(1,2,5) by blast
qed

lemma sample_valid:
  "isValidAddress sample_env HACKER_ADDRESS" "isValidAddress sample_env VICTIM_CONTRACT"
  by (simp_all add: isValidAddress_def sample_env_def sample_isAddress_def HACKER_ADDRESS_def
      VICTIM_CONTRACT_def ZERO_ADDRESS_def)

lemma sample_crawl_transactions:
  "getContractTransactions sample_env HACKER_ADDRESS
     = ([TxListRequest HACKER_ADDRESS], Inr [sample_upgrade, sample_transfer])"
  "getContractTransactions sample_env VICTIM_CONTRACT
     = ([TxListRequest VICTIM_CONTRACT], Inr [])"
proof -
  have "tx_from sample_upgrade = HACKER_ADDRESS" "tx_to sample_upgrade = VICTIM_CONTRACT"
    "tx_from sample_transfer = HACKER_ADDRESS" "tx_to sample_transfer = VICTIM_CONTRACT"
    by (simp_all add: sample_upgrade_def sample_transfer_def)
  moreover have "txlist sample_env HACKER_ADDRESS
      = Inr \<lparr>status = ''1'', result = [sample_upgrade, sample_transfer]\<rparr>"
    by (simp add: sample_env_def sample_txlist_def)
  ultimately show "getContractTransactions sample_env HACKER_ADDRESS
     = ([TxListRequest HACKER_ADDRESS], Inr [sample_upgrade, sample_transfer])"
    using sample_valid by (simp add: getContractTransactions_def)
  have "txlist sample_env VICTIM_CONTRACT = Inr \<lparr>status = ''0'', result = []\<rparr>"
    by (simp add: sample_env_def sample_txlist_def VICTIM_CONTRACT_def HACKER_ADDRESS_def)
  then show "getContractTransactions sample_env VICTIM_CONTRACT
     = ([TxListRequest VICTIM_CONTRACT], Inr [])"
    using sample_valid by (simp add: getContractTransactions_def)
qed

lemma sample_isContract: "isContract sample_env VICTIM_CONTRACT = Inr True"
  using sample_valid by (simp add: isContract_def sample_env_def sample_getCode_def)

lemma sample_analyses:
  "\<exists>a. analyzeSingleTransaction sample_env sample_upgrade = Inr a \<and> suspicious a"
  "\<exists>a. analyzeSingleTransaction sample_env sample_transfer = Inr a \<and> \<not> suspicious a"
  by (simp_all add: analyzeSingleTransaction_def classify_input_def sample_env_def
      sample_toISOString_def sample_upgrade_def sample_transfer_def truthy_def slice_def
      isSuspiciousSignature_def UPGRADE_TO_def Let_def)

lemma sample_crawl:
  "\<exists>st'. traceContractCalls sample_env 10 HACKER_ADDRESS sample_analyzer = (st', Returned)
     \<and> requests st' = [TxListRequest HACKER_ADDRESS, TxListRequest VICTIM_CONTRACT]
     \<and> processedContracts st' = {HACKER_ADDRESS, VICTIM_CONTRACT}"
proof -
  obtain a b where a: "analyzeSingleTransaction sample_env sample_upgrade = Inr a" "suspicious a"
    and b: "analyzeSingleTransaction sample_env sample_transfer = Inr b" "\<not> suspicious b"
    using sample_analyses by blast
  have to: "tx_to sample_upgrade = VICTIM_CONTRACT" "tx_to sample_transfer = VICTIM_CONTRACT"
    by (simp_all add: sample_upgrade_def sample_transfer_def)
  have ne: "HACKER_ADDRESS \<noteq> VICTIM_CONTRACT" "truthy VICTIM_CONTRACT"
    by (simp_all add: HACKER_ADDRESS_def VICTIM_CONTRACT_def truthy_def)
  have p: "processedContracts sample_analyzer = {}" "requests sample_analyzer = []"
    by (simp_all add: sample_analyzer_def)
  show ?thesis
    unfolding traceContractCalls_def
    using a b to ne p sample_valid sample_crawl_transactions sample_isContract
    by (simp add: eval_nat_numeral set_add_def Let_def insert_commute)
qed

theorem frontier_idempotence_witness:
  "snd (traceContractCalls sample_env 10 HACKER_ADDRESS sample_analyzer) = Returned
   \<and> txlist_requests (requests (fst (traceContractCalls sample_env 10 HACKER_ADDRESS sample_analyzer)))
       = [HACKER_ADDRESS, VICTIM_CONTRACT]
   \<and> distinct (txlist_requests
        (requests (fst (traceContractCalls sample_env 10 HACKER_ADDRESS sample_analyzer))))
   \<and> \<not> isValidAddress sample_env ZERO_ADDRESS
   \<and> ZERO_ADDRESS \<notin> processedContracts
        (fst (traceContractCalls sample_env 10 HACKER_ADDRESS sample_analyzer))"
proof -
  let ?run = "traceContractCalls sample_env 10 HACKER_ADDRESS sample_analyzer"
  have run: "?run = (fst ?run, snd ?run)" by simp
  have q: "txlist_requests (requests sample_analyzer) = []"
    "processedContracts sample_analyzer = {}"
    by (simp_all add: sample_analyzer_def)
  have z: "\<not> isValidAddress sample_env ZERO_ADDRESS"
    by (simp add: isValidAddress_def)
  from frontier_idempotence [OF run] q z
  have "distinct (txlist_requests (requests (fst ?run)))"
    "ZERO_ADDRESS \<notin> processedContracts (fst ?run)"
    by auto
  moreover from sample_crawl have "snd ?run = Returned"
    "txlist_requests (requests (fst ?run)) = [HACKER_ADDRESS, VICTIM_CONTRACT]"
    by auto
  ultimately show ?thesis using z by simp
qed

text \<open>
  Claim C9. From a new analyzer, the crawl of a valid seed whose transaction list comes
  back empty returns after the one visit of the seed: \<open>processedContracts\<close> is the
  singleton of the seed, and the report, \<open>suspiciousActions\<close> in it, is as it was: empty.
\<close>

theorem empty_history_crawl:
  assumes "isValidAddress e seed"
    and "snd (getContractTransactions e seed) = Inr []"
    and "processedContracts st = {}"
    and "suspiciousActions (report st) = []"
  shows "\<exists>st'. traceContractCalls e (Suc fuel) seed st = (st', Returned)
     \<and> processedContracts st' = {seed}
     \<and> suspiciousActions (report st') = []
     \<and> report st' = report st
     \<and> requests st' = requests st @ [TxListRequest seed]"
proof -
  have "getContractTransactions e seed = ([TxListRequest seed], Inr [])"
    using getContractTransactions_valid[OF assms(1)] assms(2)
    by (cases "getContractTransactions e seed") simp
  then show ?thesis
    using assms(1,3,4) by (cases fuel) (simp_all add: traceContractCalls_def)
qed

theorem empty_history_crawl_witness:
  "isValidAddress sample_env VICTIM_CONTRACT
   \<and> snd (getContractTransactions sample_env VICTIM_CONTRACT) = Inr []
   \<and> (\<exists>st'. traceContractCalls sample_env 1 VICTIM_CONTRACT sample_analyzer = (st', Returned)
        \<and> processedContracts st' = {VICTIM_CONTRACT}
        \<and> suspiciousActions (report st') = [])"
proof -
  have h1: "isValidAddress sample_env VICTIM_CONTRACT"
    by (rule sample_valid)
  have h2: "snd (getContractTransactions sample_env VICTIM_CONTRACT) = Inr []"
    by (simp add: sample_crawl_transactions)
  have h3: "processedContracts sample_analyzer = {}"
    by (simp add: sample_analyzer_def)
  have h4: "suspiciousActions (report sample_analyzer) = []"
    by (simp add: sample_analyzer_def new_report_def)
  from empty_history_crawl [OF h1 h2 h3 h4, of 0] h1 h2 show ?thesis
    by auto
qed

section \<open>Properties of the serialization\<close>

text \<open>
  With a replacer that turns every \<open>BigInt\<close> into a string, \<open>JSON.stringify\<close> does not
  throw. In the object it writes, a property whose value is written is found under its
  key.
\<close>

lemma collect_elems_total:
  "(\<And>x. x \<in> set rs \<Longrightarrow> \<exists>y. x = Inr y) \<Longrightarrow> \<exists>js. collect_elems rs = Inr js"
proof (induction rs)
  case Nil
  show ?case by simp
next
  case (Cons x rs)
  from Cons.prems[of x] obtain y where "x = Inr y" by auto
  moreover from Cons.IH Cons.prems obtain js where "collect_elems rs = Inr js" by auto
  ultimately show ?case by simp
qed

lemma collect_props_total:
  "(\<And>k x. (k, x) \<in> set rs \<Longrightarrow> \<exists>y. x = Inr y) \<Longrightarrow> \<exists>ps. collect_props rs = Inr ps"
proof (induction rs)
  case Nil
  show ?case by simp
next
  case (Cons kx rs)
  obtain k x where kx: "kx = (k, x)" by (cases kx)
  with Cons.prems[of k x] obtain y where "x = Inr y" by auto
  moreover from Cons.IH Cons.prems obtain ps where "collect_props rs = Inr ps" by auto
  ultimately show ?case using kx by simp
qed

lemma apply_replacer_no_bigint:
  "r \<noteq> NoReplacer \<Longrightarrow> apply_replacer r v \<noteq> JBigInt i"
  by (cases r; cases v) auto

lemma stringify_total:
  "r \<noteq> NoReplacer \<Longrightarrow> \<exists>res. stringify r v = Inr res"
proof (induction r v rule: stringify.induct)
  case (1 r v)
  show ?case
  proof (cases "apply_replacer r v")
    case (JBigInt i)
    with "1.prems" show ?thesis by (simp add: apply_replacer_no_bigint)
  next
    case (JArr xs)
    have "\<exists>js. collect_elems (map (stringify r) xs) = Inr js"
      using "1.IH"(1)[OF JArr _ "1.prems"] by (intro collect_elems_total) auto
    with JArr show ?thesis by (subst stringify.simps) auto
  next
    case (JObj kvs)
    have "\<exists>ps. collect_props (map (\<lambda>(k, x). (k, stringify r x)) kvs) = Inr ps"
      using "1.IH"(2)[OF JObj _ _ "1.prems"] by (intro collect_props_total) force
    with JObj show ?thesis by (subst stringify.simps) auto
  qed ((subst stringify.simps, simp)+)
qed

lemma stringify_JStr: "stringify r (JStr s) = Inr (Some (JsStr s))"
  by (cases r) ((subst stringify.simps, simp)+)

lemma collect_elems_strings:
  "collect_elems (map (stringify r \<circ> JStr) xs) = Inr (map JsStr xs)"
  by (induction xs) (simp_all add: stringify_JStr)

lemma stringify_string_array:
  "stringify r (JArr (map JStr xs)) = Inr (Some (JsArr (map JsStr xs)))"
  by (cases r) ((subst stringify.simps, simp add: collect_elems_strings)+)

lemma stringify_string_set:
  "stringify SaveToJsonReplacer (JSet (map JStr xs)) = Inr (Some (JsArr (map JsStr xs)))"
  by (subst stringify.simps) (simp add: collect_elems_strings)

lemma stringify_set_without_replacer:
  "stringify NoReplacer (JSet xs) = Inr (Some (JsObj []))"
  "stringify BigIntReplacer (JSet xs) = Inr (Some (JsObj []))"
  by ((subst stringify.simps, simp)+)

lemma collect_props_keys:
  "collect_props rs = Inr ps \<Longrightarrow> fst ` set ps \<subseteq> fst ` set rs"
proof (induction rs arbitrary: ps rule: collect_props.induct)
  case 1
  then show ?case by simp
next
  case (2 k err rs)
  then show ?case by simp
next
  case (3 k r rs)
  from "3.prems" obtain qs where qs: "collect_props rs = Inr qs"
    and ps: "ps = (case r of None \<Rightarrow> qs | Some j \<Rightarrow> (k, j) # qs)"
    by (auto split: sum.splits)
  from "3.IH"[OF qs] have "fst ` set qs \<subseteq> fst ` set rs" .
  with ps show ?case by (cases r) auto
qed

lemma collect_props_lookup:
  "collect_props rs = Inr ps \<Longrightarrow> distinct (map fst rs) \<Longrightarrow>
   map_of rs k = Some (Inr (Some j)) \<Longrightarrow> map_of ps k = Some j"
proof (induction rs arbitrary: ps rule: collect_props.induct)
  case 1
  then show ?case by simp
next
  case (2 k' err rs)
  then show ?case by simp
next
  case (3 k' r rs)
  from "3.prems"(1) obtain qs where qs: "collect_props rs = Inr qs"
    and ps: "ps = (case r of None \<Rightarrow> qs | Some j' \<Rightarrow> (k', j') # qs)"
    by (auto split: sum.splits)
  show ?case
  proof (cases "k' = k")
    case True
    with "3.prems"(3) have "r = Some j" by simp
    with ps True show ?thesis by simp
  next
    case False
    with "3.prems" have "map_of rs k = Some (Inr (Some j))" "distinct (map fst rs)" by auto
    from "3.IH"[OF qs this(2,1)] have "map_of qs k = Some j" .
    with ps False show ?thesis by (auto split: option.splits)
  qed
qed

lemma stringify_object:
  assumes "r \<noteq> NoReplacer"
  shows "\<exists>ps. stringify r (JObj kvs) = Inr (Some (JsObj ps))
     \<and> collect_props (map (\<lambda>(k, x). (k, stringify r x)) kvs) = Inr ps"
proof -
  have "\<exists>ps. collect_props (map (\<lambda>(k, x). (k, stringify r x)) kvs) = Inr ps"
    using stringify_total[OF assms] by (intro collect_props_total) force
  then show ?thesis using assms by (cases r) ((subst stringify.simps, auto)+)
qed

lemma stringify_object_lookup:
  assumes "r \<noteq> NoReplacer" and "distinct (map fst kvs)"
    and "map_of kvs k = Some x" and "stringify r x = Inr (Some j)"
  shows "\<exists>ps. stringify r (JObj kvs) = Inr (Some (JsObj ps)) \<and> map_of ps k = Some j"
proof -
  let ?rs = "map (\<lambda>(k, x). (k, stringify r x)) kvs"
  from stringify_object[OF assms(1)] obtain ps where
    ps: "stringify r (JObj kvs) = Inr (Some (JsObj ps))" "collect_props ?rs = Inr ps"
    by blast
  have keys: "map fst ?rs = map fst kvs" by (induction kvs) auto
  have d: "distinct (map fst ?rs)" unfolding keys by (rule assms(2))
  have "map_of ?rs k = Some (Inr (Some j))"
    using assms(3,4) by (simp add: map_of_map)
  from collect_props_lookup[OF ps(2) d this] ps(1) show ?thesis by blast
qed

lemma get_prop_parse:
  "map_of ps k = Some j \<Longrightarrow> get_prop k (JSON_parse (JsObj ps)) = JSON_parse j"
  by (simp add: get_prop_def map_of_map)

lemma parse_string_array: "JSON_parse (JsArr (map JsStr xs)) = JArr (map JStr xs)"
  by simp


lemma report_props_keys: "distinct (map fst (report_props r))"
  by (simp add: report_props_def split: option.splits)

lemma report_props_relatedContracts:
  "map_of (report_props r) ''relatedContracts'' = Some (JSet (map JStr (relatedContracts r)))"
  by (simp add: report_props_def)

lemma obj_set_keys: "k \<in> fst ` set ps \<Longrightarrow> map fst (obj_set k v ps) = map fst ps"
  by (induction ps) force+

lemma obj_set_lookup: "map_of (obj_set k v ps) k = Some v"
  by (induction ps) auto

lemma saved_report:
  "\<exists>ps. stringify SaveToJsonReplacer (report_to_js r) = Inr (Some (JsObj ps))
     \<and> map_of ps ''relatedContracts'' = Some (JsArr (map JsStr (relatedContracts r)))"
  unfolding report_to_js_def
  by (rule stringify_object_lookup[OF _ report_props_keys report_props_relatedContracts
        stringify_string_set]) simp

lemma written_report:
  "\<exists>ps qs. generateReports e r = Inr (Some (JsObj ps))
     \<and> map_of ps ''analysis'' = Some (JsObj qs)
     \<and> map_of qs ''relatedContracts'' = Some (JsArr (map JsStr (relatedContracts r)))"
proof -
  let ?an = "obj_set ''relatedContracts'' (JArr (map JStr (relatedContracts r))) (report_props r)"
  have "''relatedContracts'' \<in> fst ` set (report_props r)"
    by (simp add: report_props_def)
  then have "distinct (map fst ?an)"
    using report_props_keys[of r] by (simp add: obj_set_keys)
  from stringify_object_lookup[OF _ this obj_set_lookup stringify_string_array, of BigIntReplacer]
  obtain qs where qs: "stringify BigIntReplacer (JObj ?an) = Inr (Some (JsObj qs))"
    "map_of qs ''relatedContracts'' = Some (JsArr (map JsStr (relatedContracts r)))"
    by auto
  have "\<exists>ps. stringify BigIntReplacer (reportData e r) = Inr (Some (JsObj ps))
      \<and> map_of ps ''analysis'' = Some (JsObj qs)"
    unfolding reportData_def
    by (rule stringify_object_lookup[OF _ _ _ qs(1)]) simp_all
  with qs(2) show ?thesis unfolding generateReports_def by blast
qed

text \<open>
  Claim C8. For every report, \<open>saveToJson\<close> and \<open>generateReports\<close> both write
  \<open>relatedContracts\<close> as a JSON array: the elements of the set, in insertion order.
  Parsing what was written gives an array with the same elements as the set had.
\<close>

theorem relatedContracts_round_trip:
  "\<exists>ps ws qs.
      stringify SaveToJsonReplacer (report_to_js r) = Inr (Some (JsObj ps))
    \<and> map_of ps ''relatedContracts'' = Some (JsArr (map JsStr (relatedContracts r)))
    \<and> get_prop ''relatedContracts'' (JSON_parse (JsObj ps))
        = JArr (map JStr (relatedContracts r))
    \<and> generateReports e r = Inr (Some (JsObj ws))
    \<and> map_of ws ''analysis'' = Some (JsObj qs)
    \<and> map_of qs ''relatedContracts'' = Some (JsArr (map JsStr (relatedContracts r)))
    \<and> get_prop ''relatedContracts'' (get_prop ''analysis'' (JSON_parse (JsObj ws)))
        = JArr (map JStr (relatedContracts r))"
proof -
  from saved_report[of r] obtain ps where
    ps: "stringify SaveToJsonReplacer (report_to_js r) = Inr (Some (JsObj ps))"
    "map_of ps ''relatedContracts'' = Some (JsArr (map JsStr (relatedContracts r)))"
    by blast
  from written_report[of e r] obtain ws qs where
    ws: "generateReports e r = Inr (Some (JsObj ws))"
    "map_of ws ''analysis'' = Some (JsObj qs)"
    "map_of qs ''relatedContracts'' = Some (JsArr (map JsStr (relatedContracts r)))"
    by blast
  have "get_prop ''relatedContracts'' (JSON_parse (JsObj ps)) = JArr (map JStr (relatedContracts r))"
    using get_prop_parse[OF ps(2)] by (simp add: comp_def)
  moreover have "get_prop ''relatedContracts'' (get_prop ''analysis'' (JSON_parse (JsObj ws)))
      = JArr (map JStr (relatedContracts r))"
    using get_prop_parse[OF ws(2)] get_prop_parse[OF ws(3)] by (simp add: comp_def)
  ultimately show ?thesis using ps ws by blast
qed

section \<open>Properties of the report assembler\<close>

lemma saveToJson_report:
  assumes "fsWrite e prefix"
  shows "\<exists>saved. stringify SaveToJsonReplacer (report_to_js r) = Inr (Some saved)
     \<and> saveToJson e prefix (report_to_js r) files = files @ [(prefix, saved)]"
proof -
  from saved_report[of r] obtain ps where
    "stringify SaveToJsonReplacer (report_to_js r) = Inr (Some (JsObj ps))" by blast
  with assms show ?thesis by (simp add: saveToJson_def)
qed

lemma analyzeFromHack_try_result:
  assumes p1: "m_analyzeHackTransaction m h (st\<lparr>report := new_report e h v s\<rparr>) = (st1, o1)"
    and p2: "m_analyzeVictimContract m v st1 = (st2, o2)"
    and p3: "m_traceContractCalls m s st2 = (st3, o3)"
    and p4: "m_analyzeImplementationHistory m st3 = (st4, o4)"
  shows "\<exists>before.
     analyzeFromHack_try e m h v s (st, files) =
       (if o1 \<noteq> Returned then ((st1, before), o1)
        else if o2 \<noteq> Returned then ((st2, before), o2)
        else if o3 \<noteq> Returned then ((st3, before), o3)
        else if o4 \<noteq> Returned then ((st4, before), o4)
        else ((st4, saveToJson e (h @ ''_final.json'') (report_to_js (report st4)) before),
              Returned))"
proof (cases o1)
  case Returned
  note r1 = this
  show ?thesis
  proof (cases o2)
    case Returned
    note r2 = this
    show ?thesis
    proof (cases o3)
      case Returned
      note r3 = this
      show ?thesis
        using p1 p2 p3 p4 r1 r2 r3
        by (cases o4) (auto simp add: analyzeFromHack_try_def Let_def)
    qed (use p1 p2 p3 r1 r2 in \<open>simp_all add: analyzeFromHack_try_def Let_def\<close>)
  qed (use p1 p2 r1 in \<open>simp_all add: analyzeFromHack_try_def Let_def\<close>)
qed (use p1 in \<open>simp_all add: analyzeFromHack_try_def\<close>)

text \<open>
  Claim C7. Name the results of the four phases, each run on the analyzer that the
  phase before it left. The run returns exactly when all four phases return. When a
  phase throws, the phases before it having returned, the run throws the same error, the
  analyzer is as the throwing phase left it, and, the file system accepting the write,
  the last file written is the report of that analyzer under the label
  \<open><hash>_error.json\<close>.
\<close>

theorem fatal_error_checkpoint:
  assumes p1: "m_analyzeHackTransaction m h (st\<lparr>report := new_report e h v s\<rparr>) = (st1, o1)"
    and p2: "m_analyzeVictimContract m v st1 = (st2, o2)"
    and p3: "m_traceContractCalls m s st2 = (st3, o3)"
    and p4: "m_analyzeImplementationHistory m st3 = (st4, o4)"
    and run: "analyzeFromHack e m h v s (st, files) = ((st', files'), out)"
  shows "(out = Returned \<longleftrightarrow>
            o1 = Returned \<and> o2 = Returned \<and> o3 = Returned \<and> o4 = Returned)
     \<and> st' = (if o1 \<noteq> Returned then st1 else if o2 \<noteq> Returned then st2
               else if o3 \<noteq> Returned then st3 else st4)
     \<and> (\<forall>err. (o1 = Threw err
                 \<or> o1 = Returned \<and> (o2 = Threw err
                   \<or> o2 = Returned \<and> (o3 = Threw err
                     \<or> o3 = Returned \<and> o4 = Threw err)))
           \<longrightarrow> out = Threw err
               \<and> (fsWrite e (h @ ''_error.json'') \<longrightarrow>
                    (\<exists>saved. stringify SaveToJsonReplacer (report_to_js (report st'))
                               = Inr (Some saved)
                       \<and> files' \<noteq> []
                       \<and> last files' = (h @ ''_error.json'', saved))))"
proof -
  from analyzeFromHack_try_result[OF p1 p2 p3 p4, where files = files] obtain before where
    t: "analyzeFromHack_try e m h v s (st, files) =
       (if o1 \<noteq> Returned then ((st1, before), o1)
        else if o2 \<noteq> Returned then ((st2, before), o2)
        else if o3 \<noteq> Returned then ((st3, before), o3)
        else if o4 \<noteq> Returned then ((st4, before), o4)
        else ((st4, saveToJson e (h @ ''_final.json'') (report_to_js (report st4)) before),
              Returned))" by blast
  define stf where "stf = (if o1 \<noteq> Returned then st1 else if o2 \<noteq> Returned then st2
               else if o3 \<noteq> Returned then st3 else st4)"
  define outf where "outf = (if o1 \<noteq> Returned then o1 else if o2 \<noteq> Returned then o2
               else if o3 \<noteq> Returned then o3 else o4)"
  have t': "\<exists>fs. analyzeFromHack_try e m h v s (st, files) = ((stf, fs), outf)
      \<and> (outf \<noteq> Returned \<longrightarrow> fs = before)"
    unfolding t stf_def outf_def by auto
  then obtain fs where fs: "analyzeFromHack_try e m h v s (st, files) = ((stf, fs), outf)"
    "outf \<noteq> Returned \<longrightarrow> fs = before" by blast
  have res: "analyzeFromHack e m h v s (st, files) =
      (case outf of
         Threw err \<Rightarrow>
           ((stf, saveToJson e (h @ ''_error.json'') (report_to_js (report stf)) fs), Threw err)
       | _ \<Rightarrow> ((stf, fs), outf))"
    unfolding analyzeFromHack_def fs(1) by (cases outf) simp_all
  have st': "st' = stf" and out: "out = outf"
    using run res by (cases outf; simp)+
  have files': "\<And>err. outf = Threw err \<Longrightarrow>
      files' = saveToJson e (h @ ''_error.json'') (report_to_js (report st')) fs"
    using run res st' by simp
  have a: "out = Returned \<longleftrightarrow> o1 = Returned \<and> o2 = Returned \<and> o3 = Returned \<and> o4 = Returned"
    unfolding out outf_def by auto
  have c: "out = Threw err
        \<and> (fsWrite e (h @ ''_error.json'') \<longrightarrow>
              (\<exists>saved. stringify SaveToJsonReplacer (report_to_js (report st')) = Inr (Some saved)
                 \<and> files' \<noteq> [] \<and> last files' = (h @ ''_error.json'', saved)))"
    if "o1 = Threw err \<or> o1 = Returned \<and> (o2 = Threw err
          \<or> o2 = Returned \<and> (o3 = Threw err \<or> o3 = Returned \<and> o4 = Threw err))" for err
  proof -
    from that have o: "outf = Threw err" unfolding outf_def by auto
    show ?thesis
    proof (intro conjI impI)
      show "out = Threw err" using o out by simp
    next
      assume w: "fsWrite e (h @ ''_error.json'')"
      from saveToJson_report[OF w, of "report st'" fs] files'[OF o]
      show "\<exists>saved. stringify SaveToJsonReplacer (report_to_js (report st')) = Inr (Some saved)
          \<and> files' \<noteq> [] \<and> last files' = (h @ ''_error.json'', saved)"
        by auto
    qed
  qed
  from a st' c show ?thesis unfolding stf_def by blast
qed

lemma sample_crawl_any:
  assumes "processedContracts st = {}"
  shows "snd (traceContractCalls sample_env 10 HACKER_ADDRESS st) = Returned"
proof -
  obtain a b where a: "analyzeSingleTransaction sample_env sample_upgrade = Inr a" "suspicious a"
    and b: "analyzeSingleTransaction sample_env sample_transfer = Inr b" "\<not> suspicious b"
    using sample_analyses by blast
  have to: "tx_to sample_upgrade = VICTIM_CONTRACT" "tx_to sample_transfer = VICTIM_CONTRACT"
    by (simp_all add: sample_upgrade_def sample_transfer_def)
  have ne: "HACKER_ADDRESS \<noteq> VICTIM_CONTRACT" "truthy VICTIM_CONTRACT"
    by (simp_all add: HACKER_ADDRESS_def VICTIM_CONTRACT_def truthy_def)
  show ?thesis
    unfolding traceContractCalls_def
    using a b to ne assms sample_valid sample_crawl_transactions sample_isContract
    by (simp add: eval_nat_numeral set_add_def Let_def)
qed

lemma sample_sampler_returns:
  "snd (analyzeImplementationHistory sample_env st) = Returned"
  by (simp add: analyzeImplementationHistory_def sample_env_def sample_getBlockNumber_def
      Let_def split: prod.splits)

theorem fatal_error_checkpoint_witness:
  "snd (analyzeFromHack sample_env sample_methods [] VICTIM_CONTRACT HACKER_ADDRESS
          (sample_analyzer, [])) = Threw (Error ''transaction not found'')
   \<and> fst (last (snd (fst (analyzeFromHack sample_env sample_methods [] VICTIM_CONTRACT
          HACKER_ADDRESS (sample_analyzer, []))))) = ''_error.json''
   \<and> snd (analyzeFromHack sample_env sample_methods HACK_TX VICTIM_CONTRACT HACKER_ADDRESS
          (sample_analyzer, [])) = Returned"
proof -
  let ?m = sample_methods
  let ?fail = "analyzeFromHack sample_env ?m [] VICTIM_CONTRACT HACKER_ADDRESS (sample_analyzer, [])"
  let ?st0 = "sample_analyzer\<lparr>report := new_report sample_env [] VICTIM_CONTRACT HACKER_ADDRESS\<rparr>"
  have p1: "m_analyzeHackTransaction ?m [] ?st0 = (?st0, Threw (Error ''transaction not found''))"
    by (simp add: sample_methods_def sample_analyzeHackTransaction_def)
  have p2: "m_analyzeVictimContract ?m VICTIM_CONTRACT ?st0 = (?st0, Returned)"
    by (simp add: sample_methods_def sample_analyzeVictimContract_def)
  have p3: "m_traceContractCalls ?m HACKER_ADDRESS ?st0
      = (fst (m_traceContractCalls ?m HACKER_ADDRESS ?st0),
         snd (m_traceContractCalls ?m HACKER_ADDRESS ?st0))"
    by simp
  have p4: "m_analyzeImplementationHistory ?m (fst (m_traceContractCalls ?m HACKER_ADDRESS ?st0))
      = (fst (m_analyzeImplementationHistory ?m (fst (m_traceContractCalls ?m HACKER_ADDRESS ?st0))),
         snd (m_analyzeImplementationHistory ?m (fst (m_traceContractCalls ?m HACKER_ADDRESS ?st0))))"
    by simp
  have run: "?fail = ((fst (fst ?fail), snd (fst ?fail)), snd ?fail)"
    by simp
  have w: "fsWrite sample_env ([] @ ''_error.json'')"
    by (simp add: sample_env_def sample_fsWrite_def)
  from fatal_error_checkpoint [OF p1 p2 p3 p4 run] w
  have failing: "snd ?fail = Threw (Error ''transaction not found'')"
    "fst (last (snd (fst ?fail))) = ''_error.json''"
    by auto
  let ?ok = "analyzeFromHack sample_env ?m HACK_TX VICTIM_CONTRACT HACKER_ADDRESS (sample_analyzer, [])"
  let ?s0 = "sample_analyzer\<lparr>report := new_report sample_env HACK_TX VICTIM_CONTRACT HACKER_ADDRESS\<rparr>"
  let ?s1 = "?s0\<lparr>report := (report ?s0)\<lparr>hackDetails := Some (JObj [(''gas'', JBigInt 21000)])\<rparr>\<rparr>"
  have q1: "m_analyzeHackTransaction ?m HACK_TX ?s0 = (?s1, Returned)"
    by (simp add: sample_methods_def sample_analyzeHackTransaction_def HACK_TX_def)
  have q2: "m_analyzeVictimContract ?m VICTIM_CONTRACT ?s1 = (?s1, Returned)"
    by (simp add: sample_methods_def sample_analyzeVictimContract_def)
  have "processedContracts ?s1 = {}"
    by (simp add: sample_analyzer_def)
  from sample_crawl_any[OF this]
  have q3: "m_traceContractCalls ?m HACKER_ADDRESS ?s1
      = (fst (m_traceContractCalls ?m HACKER_ADDRESS ?s1), Returned)"
    by (simp add: sample_methods_def prod_eq_iff)
  have q4: "m_analyzeImplementationHistory ?m (fst (m_traceContractCalls ?m HACKER_ADDRESS ?s1))
      = (fst (m_analyzeImplementationHistory ?m (fst (m_traceContractCalls ?m HACKER_ADDRESS ?s1))),
         Returned)"
    using sample_sampler_returns by (simp add: sample_methods_def prod_eq_iff)
  have run2: "?ok = ((fst (fst ?ok), snd (fst ?ok)), snd ?ok)"
    by simp
  from fatal_error_checkpoint [OF q1 q2 q3 q4 run2]
  have "snd ?ok = Returned"
    by simp
  with failing show ?thesis by simp
qed

end
